theory Spec2Isabelle
  imports Complex_Main
begin

section \<open>JavaScript numbers\<close>

text \<open>
  A JavaScript number is an IEEE 754 double: a finite value, an infinity or NaN. Every
  arithmetic operation computes the exact result and rounds it to the nearest double, ties
  to the even significand; a result beyond the largest double becomes an infinity. A store
  into a \<open>Float32Array\<close> rounds the double to the nearest single in the same way. A finite
  number is kept as the real number it denotes, so \<open>+0\<close> and \<open>-0\<close> are one value: the
  sign of a zero shows only in the sign of the infinity that dividing by it gives, and where
  the scripts divide by a zero it is \<open>+0\<close>.

  \<open>round_to p emin emax\<close> rounds a real to the format with \<open>p\<close> significant bits and
  exponents from \<open>emin\<close> to \<open>emax\<close>: the spacing of the format at \<open>x\<close> is
  \<open>2^(e - p + 1)\<close> for the exponent \<open>e\<close> of \<open>x\<close>, and not below that of \<open>emin\<close>.
\<close>

datatype number = Finite real | PosInf | NegInf | NaN

definition pow2 :: "int \<Rightarrow> real" where
  "pow2 e = (if 0 \<le> e then 2 ^ nat e else 1 / 2 ^ nat (- e))"

definition rne :: "real \<Rightarrow> int" where
  "rne x =
     (let n = \<lfloor>x\<rfloor>; r = x - of_int n in
      if r < 1 / 2 then n
      else if 1 / 2 < r then n + 1
      else if even n then n else n + 1)"

definition round_at :: "nat \<Rightarrow> int \<Rightarrow> int \<Rightarrow> real \<Rightarrow> number" where
  "round_at p emax e x =
     (let u = pow2 (e - int p + 1); y = of_int (rne (x / u)) * u in
      if pow2 (emax + 1) \<le> \<bar>y\<bar> then (if 0 < x then PosInf else NegInf)
      else Finite y)"

definition round_to :: "nat \<Rightarrow> int \<Rightarrow> int \<Rightarrow> real \<Rightarrow> number" where
  "round_to p emin emax x =
     (if x = 0 then Finite 0
      else round_at p emax (max \<lfloor>log 2 \<bar>x\<bar>\<rfloor> emin) x)"

definition round64 :: "real \<Rightarrow> number" where
  "round64 = round_to 53 (- 1022) 1023"

definition round32 :: "real \<Rightarrow> number" where
  "round32 = round_to 24 (- 126) 127"

text \<open>
  The operators \<open>-x\<close>, \<open>+\<close>, \<open>-\<close>, \<open>*\<close>, \<open>/\<close> and \<open><\<close> on numbers,
  \<open>Math.abs\<close>, the test \<open>!x\<close> (true of zero and of NaN), and the store into a
  \<open>Float32Array\<close>. \<open>Math.sqrt\<close> is taken to be the correctly rounded square root of
  IEEE 754, which is what the engines compute.
\<close>

fun num_neg :: "number \<Rightarrow> number" where
  "num_neg (Finite a) = Finite (- a)"
| "num_neg PosInf = NegInf"
| "num_neg NegInf = PosInf"
| "num_neg NaN = NaN"

fun positive :: "number \<Rightarrow> bool" where
  "positive (Finite a) = (0 \<le> a)"
| "positive PosInf = True"
| "positive NegInf = False"
| "positive NaN = False"

definition signed_inf :: "bool \<Rightarrow> number" where
  "signed_inf pos = (if pos then PosInf else NegInf)"

fun num_add :: "number \<Rightarrow> number \<Rightarrow> number" where
  "num_add (Finite a) (Finite b) = round64 (a + b)"
| "num_add NaN y = NaN"
| "num_add x NaN = NaN"
| "num_add PosInf NegInf = NaN"
| "num_add NegInf PosInf = NaN"
| "num_add PosInf y = PosInf"
| "num_add NegInf y = NegInf"
| "num_add (Finite a) y = y"

definition num_sub :: "number \<Rightarrow> number \<Rightarrow> number" where
  "num_sub x y = num_add x (num_neg y)"

fun num_mul :: "number \<Rightarrow> number \<Rightarrow> number" where
  "num_mul (Finite a) (Finite b) = round64 (a * b)"
| "num_mul NaN y = NaN"
| "num_mul x NaN = NaN"
| "num_mul x y =
     (if x = Finite 0 \<or> y = Finite 0 then NaN else signed_inf (positive x = positive y))"

fun num_div :: "number \<Rightarrow> number \<Rightarrow> number" where
  "num_div (Finite a) (Finite b) =
     (if b = 0 then (if a = 0 then NaN else signed_inf (0 < a)) else round64 (a / b))"
| "num_div NaN y = NaN"
| "num_div x NaN = NaN"
| "num_div (Finite a) y = Finite 0"
| "num_div x (Finite b) = signed_inf (positive x = (0 \<le> b))"
| "num_div x y = NaN"

fun Math_sqrt :: "number \<Rightarrow> number" where
  "Math_sqrt (Finite a) = (if a < 0 then NaN else round64 (sqrt a))"
| "Math_sqrt PosInf = PosInf"
| "Math_sqrt NegInf = NaN"
| "Math_sqrt NaN = NaN"

fun Math_abs :: "number \<Rightarrow> number" where
  "Math_abs (Finite a) = Finite \<bar>a\<bar>"
| "Math_abs PosInf = PosInf"
| "Math_abs NegInf = PosInf"
| "Math_abs NaN = NaN"

fun num_less :: "number \<Rightarrow> number \<Rightarrow> bool" where
  "num_less (Finite a) (Finite b) = (a < b)"
| "num_less NaN y = False"
| "num_less x NaN = False"
| "num_less x NegInf = False"
| "num_less PosInf y = False"
| "num_less NegInf y = True"
| "num_less (Finite a) PosInf = True"

fun falsy :: "number \<Rightarrow> bool" where
  "falsy (Finite a) = (a = 0)"
| "falsy NaN = True"
| "falsy PosInf = False"
| "falsy NegInf = False"

fun fround :: "number \<Rightarrow> number" where
  "fround (Finite a) = round32 a"
| "fround PosInf = PosInf"
| "fround NegInf = NegInf"
| "fround NaN = NaN"

text \<open>
  ECMAScript leaves \<open>Math.sin\<close>, \<open>Math.cos\<close> and \<open>Math.tan\<close> to the engine
  (they are implementation-approximated), so they are functions that the engine supplies.
\<close>

record engine =
  Math_sin :: "number \<Rightarrow> number"
  Math_cos :: "number \<Rightarrow> number"
  Math_tan :: "number \<Rightarrow> number"

definition Math_PI :: number where
  "Math_PI = Finite (884279719003555 / 2 ^ 48)"

section \<open>The matrix/vector library used by the examples\<close>

text \<open>
  Modelled from the spec: the matrix/vector library. The example scripts call gl-matrix
  (\<open>vec3.*\<close>, \<open>mat4.*\<close>, \<open>glMatrix.toRadian\<close>), which the pages load from
  outside the repository and which the specification lists as an external collaborator
  supplying normalize, cross, rotate, look-at and perspective construction. The functions below
  follow the published source of gl-matrix 2, one definition per library function that the
  modelled scripts call; their names carry an \<open>f\<close> where the same name is used for the
  vectors of the shaders further down.

  A \<open>vec3\<close> is a \<open>Float32Array\<close> of three numbers, a \<open>mat4\<close> one of sixteen
  numbers in column-major order. Each function reads its arguments as doubles, computes in
  doubles and writes into its \<open>out\<close> argument, which rounds to single precision; here it
  returns the new contents of \<open>out\<close>.
\<close>

datatype fvec3 = FVec3 (fx: number) (fy: number) (fz: number)

type_synonym mat4 = "number list"

definition fvec3_fromValues :: "number \<Rightarrow> number \<Rightarrow> number \<Rightarrow> fvec3" where
  "fvec3_fromValues x y z = FVec3 (fround x) (fround y) (fround z)"

definition fvec3_add :: "fvec3 \<Rightarrow> fvec3 \<Rightarrow> fvec3" where
  "fvec3_add a b =
     FVec3 (fround (num_add (fx a) (fx b)))
           (fround (num_add (fy a) (fy b)))
           (fround (num_add (fz a) (fz b)))"

definition fvec3_subtract :: "fvec3 \<Rightarrow> fvec3 \<Rightarrow> fvec3" where
  "fvec3_subtract a b =
     FVec3 (fround (num_sub (fx a) (fx b)))
           (fround (num_sub (fy a) (fy b)))
           (fround (num_sub (fz a) (fz b)))"

definition fvec3_cross :: "fvec3 \<Rightarrow> fvec3 \<Rightarrow> fvec3" where
  "fvec3_cross a b =
     (let ax = fx a; ay = fy a; az = fz a; bx = fx b; by = fy b; bz = fz b in
      FVec3 (fround (num_sub (num_mul ay bz) (num_mul az by)))
            (fround (num_sub (num_mul az bx) (num_mul ax bz)))
            (fround (num_sub (num_mul ax by) (num_mul ay bx))))"

text \<open>
  \<open>vec3.normalize(out, a)\<close> scales by \<open>1 / Math.sqrt(len)\<close> when the squared length
  \<open>len\<close> is greater than zero, and otherwise writes nothing. The scripts only call it in
  place (\<open>out\<close> is \<open>a\<close>), so the vector is then left as it is.
\<close>

definition fvec3_normalize :: "fvec3 \<Rightarrow> fvec3" where
  "fvec3_normalize a =
     (let x = fx a; y = fy a; z = fz a;
          len = num_add (num_add (num_mul x x) (num_mul y y)) (num_mul z z) in
      if num_less (Finite 0) len
      then (let l = num_div (Finite 1) (Math_sqrt len) in
            FVec3 (fround (num_mul (fx a) l)) (fround (num_mul (fy a) l))
                  (fround (num_mul (fz a) l)))
      else a)"

definition fvec3_scaleAndAdd :: "fvec3 \<Rightarrow> fvec3 \<Rightarrow> number \<Rightarrow> fvec3" where
  "fvec3_scaleAndAdd a b s =
     FVec3 (fround (num_add (fx a) (num_mul (fx b) s)))
           (fround (num_add (fy a) (num_mul (fy b) s)))
           (fround (num_add (fz a) (num_mul (fz b) s)))"

text \<open>
  \<open>glMatrix.EPSILON\<close> is the literal \<open>0.000001\<close>, that is the double nearest to it;
  \<open>glMatrix.toRadian\<close> multiplies by \<open>Math.PI / 180\<close>, where \<open>Math.PI\<close> is
  the double nearest to pi.
\<close>

definition glMatrix_EPSILON :: number where
  "glMatrix_EPSILON = Finite (4722366482869645 / 2 ^ 72)"

definition glMatrix_toRadian :: "number \<Rightarrow> number" where
  "glMatrix_toRadian a = num_mul a (num_div Math_PI (Finite 180))"

definition mat4_create :: mat4 where
  "mat4_create =
     [Finite 1, Finite 0, Finite 0, Finite 0,
      Finite 0, Finite 1, Finite 0, Finite 0,
      Finite 0, Finite 0, Finite 1, Finite 0,
      Finite 0, Finite 0, Finite 0, Finite 1]"

text \<open>
  \<open>mat4.lookAt(out, eye, center, up)\<close>: the identity when eye and center differ by less
  than \<open>glMatrix.EPSILON\<close> in every coordinate; otherwise the rows are the normalised
  \<open>x = up \<times> z\<close>, \<open>y = z \<times> x\<close> and \<open>z = eye - center\<close>, a vector whose length is
  zero or NaN being replaced by zero.
\<close>

definition lookAt_unit :: "number \<Rightarrow> number \<Rightarrow> number \<Rightarrow> number \<times> number \<times> number" where
  "lookAt_unit v0 v1 v2 =
     (let len = Math_sqrt (num_add (num_add (num_mul v0 v0) (num_mul v1 v1)) (num_mul v2 v2)) in
      if falsy len then (Finite 0, Finite 0, Finite 0)
      else (let l = num_div (Finite 1) len in (num_mul v0 l, num_mul v1 l, num_mul v2 l)))"

definition mat4_lookAt :: "fvec3 \<Rightarrow> fvec3 \<Rightarrow> fvec3 \<Rightarrow> mat4" where
  "mat4_lookAt eye center upv =
     (let eyex = fx eye; eyey = fy eye; eyez = fz eye;
          upx = fx upv; upy = fy upv; upz = fz upv;
          centerx = fx center; centery = fy center; centerz = fz center in
      if num_less (Math_abs (num_sub eyex centerx)) glMatrix_EPSILON \<and>
         num_less (Math_abs (num_sub eyey centery)) glMatrix_EPSILON \<and>
         num_less (Math_abs (num_sub eyez centerz)) glMatrix_EPSILON
      then mat4_create
      else
       (let z0 = num_sub eyex centerx; z1 = num_sub eyey centery; z2 = num_sub eyez centerz;
            len = num_div (Finite 1)
                    (Math_sqrt (num_add (num_add (num_mul z0 z0) (num_mul z1 z1))
                       (num_mul z2 z2)));
            z0 = num_mul z0 len; z1 = num_mul z1 len; z2 = num_mul z2 len
        in case lookAt_unit (num_sub (num_mul upy z2) (num_mul upz z1))
                  (num_sub (num_mul upz z0) (num_mul upx z2))
                  (num_sub (num_mul upx z1) (num_mul upy z0)) of
          (x0, x1, x2) \<Rightarrow>
        (case lookAt_unit (num_sub (num_mul z1 x2) (num_mul z2 x1))
                  (num_sub (num_mul z2 x0) (num_mul z0 x2))
                  (num_sub (num_mul z0 x1) (num_mul z1 x0)) of
          (y0, y1, y2) \<Rightarrow>
         map fround
           [x0, y0, z0, Finite 0,
            x1, y1, z1, Finite 0,
            x2, y2, z2, Finite 0,
            num_neg (num_add (num_add (num_mul x0 eyex) (num_mul x1 eyey)) (num_mul x2 eyez)),
            num_neg (num_add (num_add (num_mul y0 eyex) (num_mul y1 eyey)) (num_mul y2 eyez)),
            num_neg (num_add (num_add (num_mul z0 eyex) (num_mul z1 eyey)) (num_mul z2 eyez)),
            Finite 1])))"

text \<open>
  \<open>vec3.transformMat4(out, a, m)\<close>: the vector is extended with \<open>w = 1\<close>, multiplied
  by \<open>m\<close> and divided by the resulting \<open>w\<close>, where a \<open>w\<close> that is zero or NaN is
  replaced by \<open>1.0\<close> (\<open>w = w || 1.0\<close>).
\<close>

definition fvec3_transformMat4 :: "fvec3 \<Rightarrow> mat4 \<Rightarrow> fvec3" where
  "fvec3_transformMat4 a m =
     (let x = fx a; y = fy a; z = fz a;
          w0 = num_add (num_add (num_add (num_mul (m ! 3) x) (num_mul (m ! 7) y))
                 (num_mul (m ! 11) z)) (m ! 15);
          w = (if falsy w0 then Finite 1 else w0)
      in FVec3
          (fround (num_div (num_add (num_add (num_add (num_mul (m ! 0) x) (num_mul (m ! 4) y))
                      (num_mul (m ! 8) z)) (m ! 12)) w))
          (fround (num_div (num_add (num_add (num_add (num_mul (m ! 1) x) (num_mul (m ! 5) y))
                      (num_mul (m ! 9) z)) (m ! 13)) w))
          (fround (num_div (num_add (num_add (num_add (num_mul (m ! 2) x) (num_mul (m ! 6) y))
                      (num_mul (m ! 10) z)) (m ! 14)) w)))"

text \<open>
  \<open>mat4.rotate(out, a, rad, axis)\<close> returns \<open>null\<close> and leaves \<open>out\<close> untouched
  when the axis is shorter than \<open>glMatrix.EPSILON\<close>; otherwise it multiplies \<open>a\<close>
  by the rotation about the normalised axis. Each of the first twelve entries of the
  product is \<open>a0 * b0 + a1 * b1 + a2 * b2\<close>, a sum taken from left to right. The scripts
  call it with \<open>out\<close> equal to \<open>a\<close>, so the last four entries are those of \<open>a\<close>.
\<close>

definition dot3 ::
  "number \<Rightarrow> number \<Rightarrow> number \<Rightarrow> number \<Rightarrow> number \<Rightarrow> number \<Rightarrow> number" where
  "dot3 a0 b0 a1 b1 a2 b2 = num_add (num_add (num_mul a0 b0) (num_mul a1 b1)) (num_mul a2 b2)"

definition mat4_rotate :: "engine \<Rightarrow> mat4 \<Rightarrow> number \<Rightarrow> fvec3 \<Rightarrow> mat4 option" where
  "mat4_rotate js a rad axis =
     (let x = fx axis; y = fy axis; z = fz axis;
          len = Math_sqrt (num_add (num_add (num_mul x x) (num_mul y y)) (num_mul z z)) in
      if num_less (Math_abs len) glMatrix_EPSILON then None
      else
       (let len = num_div (Finite 1) len;
            x = num_mul x len; y = num_mul y len; z = num_mul z len;
            s = Math_sin js rad; c = Math_cos js rad; t = num_sub (Finite 1) c;
            a00 = a ! 0; a01 = a ! 1; a02 = a ! 2; a03 = a ! 3;
            a10 = a ! 4; a11 = a ! 5; a12 = a ! 6; a13 = a ! 7;
            a20 = a ! 8; a21 = a ! 9; a22 = a ! 10; a23 = a ! 11;
            b00 = num_add (num_mul (num_mul x x) t) c;
            b01 = num_add (num_mul (num_mul y x) t) (num_mul z s);
            b02 = num_sub (num_mul (num_mul z x) t) (num_mul y s);
            b10 = num_sub (num_mul (num_mul x y) t) (num_mul z s);
            b11 = num_add (num_mul (num_mul y y) t) c;
            b12 = num_add (num_mul (num_mul z y) t) (num_mul x s);
            b20 = num_add (num_mul (num_mul x z) t) (num_mul y s);
            b21 = num_sub (num_mul (num_mul y z) t) (num_mul x s);
            b22 = num_add (num_mul (num_mul z z) t) c
        in Some (map fround
          [dot3 a00 b00 a10 b01 a20 b02,
           dot3 a01 b00 a11 b01 a21 b02,
           dot3 a02 b00 a12 b01 a22 b02,
           dot3 a03 b00 a13 b01 a23 b02,
           dot3 a00 b10 a10 b11 a20 b12,
           dot3 a01 b10 a11 b11 a21 b12,
           dot3 a02 b10 a12 b11 a22 b12,
           dot3 a03 b10 a13 b11 a23 b12,
           dot3 a00 b20 a10 b21 a20 b22,
           dot3 a01 b20 a11 b21 a21 b22,
           dot3 a02 b20 a12 b21 a22 b22,
           dot3 a03 b20 a13 b21 a23 b22,
           a ! 12, a ! 13, a ! 14, a ! 15])))"

text \<open>\<open>mat4.perspective(out, fovy, aspect, near, far)\<close>.\<close>

definition mat4_perspective ::
  "engine \<Rightarrow> number \<Rightarrow> number \<Rightarrow> number \<Rightarrow> number \<Rightarrow> mat4" where
  "mat4_perspective js fovy aspect near far =
     (let f = num_div (Finite 1) (Math_tan js (num_div fovy (Finite 2)));
          nf = num_div (Finite 1) (num_sub near far) in
      map fround
        [num_div f aspect, Finite 0, Finite 0, Finite 0,
         Finite 0, f, Finite 0, Finite 0,
         Finite 0, Finite 0, num_mul (num_add far near) nf, Finite (- 1),
         Finite 0, Finite 0, num_mul (num_mul (num_mul (Finite 2) far) near) nf, Finite 0])"

section \<open>Camera (examples/Tree/scripts/app.js)\<close>

text \<open>
  The three direction vectors are fresh \<open>Float32Array\<close>s; \<open>position\<close> is the array the
  caller passes, for which \<open>Load\<close> passes a \<open>Float32Array\<close> as well.
\<close>

record Camera =
  position :: fvec3
  forward :: fvec3
  up :: fvec3
  right :: fvec3

text \<open>
  The constructor takes both cross products from the difference vector before anything
  is normalised, then normalises the three vectors in place.
\<close>

definition Camera_new :: "fvec3 \<Rightarrow> fvec3 \<Rightarrow> fvec3 \<Rightarrow> Camera" where
  "Camera_new pos lookAt upv =
     (let forward0 = fvec3_subtract lookAt pos;
          right0 = fvec3_cross forward0 upv;
          up0 = fvec3_cross right0 forward0
      in \<lparr>position = pos,
          forward = fvec3_normalize forward0,
          up = fvec3_normalize up0,
          right = fvec3_normalize right0\<rparr>)"

definition getViewMatrix :: "Camera \<Rightarrow> mat4" where
  "getViewMatrix c =
     (let lookAt = fvec3_add (position c) (forward c)
      in mat4_lookAt (position c) lookAt (up c))"

definition realign :: "Camera \<Rightarrow> Camera" where
  "realign c =
     (let right0 = fvec3_cross (forward c) (up c);
          up0 = fvec3_cross right0 (forward c)
      in c\<lparr>forward := fvec3_normalize (forward c),
           right := fvec3_normalize right0,
           up := fvec3_normalize up0\<rparr>)"

text \<open>
  \<open>mat4.rotate\<close> is called for its effect on the fresh identity matrix; when it
  returns \<open>null\<close> the matrix is still the identity.
\<close>

definition rotation_of :: "engine \<Rightarrow> number \<Rightarrow> fvec3 \<Rightarrow> mat4" where
  "rotation_of js rad axis =
     (case mat4_rotate js mat4_create rad axis of None \<Rightarrow> mat4_create | Some m \<Rightarrow> m)"

definition rotateUp :: "engine \<Rightarrow> Camera \<Rightarrow> number \<Rightarrow> Camera" where
  "rotateUp js c rad =
     (let upMatrix = rotation_of js rad (fvec3_fromValues (Finite 1) (Finite 0) (Finite 0))
      in realign (c\<lparr>forward := fvec3_transformMat4 (forward c) upMatrix\<rparr>))"

definition rotateRight :: "engine \<Rightarrow> Camera \<Rightarrow> number \<Rightarrow> Camera" where
  "rotateRight js c rad =
     (let rightMatrix = rotation_of js rad (fvec3_fromValues (Finite 0) (Finite 0) (Finite 1))
      in realign (c\<lparr>forward := fvec3_transformMat4 (forward c) rightMatrix\<rparr>))"

definition moveForward :: "Camera \<Rightarrow> number \<Rightarrow> Camera" where
  "moveForward c dst = c\<lparr>position := fvec3_scaleAndAdd (position c) (forward c) dst\<rparr>"

definition moveRight :: "Camera \<Rightarrow> number \<Rightarrow> Camera" where
  "moveRight c dst = c\<lparr>position := fvec3_scaleAndAdd (position c) (right c) dst\<rparr>"

definition moveUp :: "Camera \<Rightarrow> number \<Rightarrow> Camera" where
  "moveUp c dst = c\<lparr>position := fvec3_scaleAndAdd (position c) (up c) dst\<rparr>"

text \<open>
  A real number is exact when both roundings leave it as it is, so that it is the value of
  an entry of a \<open>Float32Array\<close>. One coordinate of a move by \<open>d\<close> is exact when the
  old coordinate, the product of the direction's coordinate with \<open>d\<close> and the new
  coordinate are all computed and stored without rounding.
\<close>

definition exact :: "real \<Rightarrow> bool" where
  "exact x \<longleftrightarrow> round64 x = Finite x \<and> round32 x = Finite x"

fun exact_move :: "number \<Rightarrow> number \<Rightarrow> number \<Rightarrow> bool" where
  "exact_move (Finite p) (Finite f) (Finite d) =
     (exact p \<and> round64 (f * d) = Finite (f * d) \<and> exact (p + f * d))"
| "exact_move p f d = False"

text \<open>
  Example cameras, all constructed from \<open>Float32Array\<close>s as \<open>Load\<close> does: the
  camera that \<open>Load\<close> constructs, at \<open>[10, 0, 0]\<close> looking at the origin; a camera at
  the origin looking at \<open>[2^70, 0, 0]\<close>; a camera at \<open>[2^27, 0, 0]\<close> looking at the
  origin; and a camera at \<open>[1, 0, 0]\<close> looking at \<open>[2, 0, 0]\<close>. These four have
  \<open>[0, 1, 0]\<close> as their up direction. The last is a camera at the origin looking along
  \<open>[0, 1, 1]\<close> with \<open>[0, -1, 1]\<close> as its up direction.
\<close>

definition default_camera :: Camera where
  "default_camera =
     Camera_new (fvec3_fromValues (Finite 10) (Finite 0) (Finite 0))
       (fvec3_fromValues (Finite 0) (Finite 0) (Finite 0))
       (fvec3_fromValues (Finite 0) (Finite 1) (Finite 0))"

definition far_camera :: Camera where
  "far_camera =
     Camera_new (fvec3_fromValues (Finite 0) (Finite 0) (Finite 0))
       (fvec3_fromValues (Finite (2 ^ 70)) (Finite 0) (Finite 0))
       (fvec3_fromValues (Finite 0) (Finite 1) (Finite 0))"

definition distant_camera :: Camera where
  "distant_camera =
     Camera_new (fvec3_fromValues (Finite (2 ^ 27)) (Finite 0) (Finite 0))
       (fvec3_fromValues (Finite 0) (Finite 0) (Finite 0))
       (fvec3_fromValues (Finite 0) (Finite 1) (Finite 0))"

definition unit_camera :: Camera where
  "unit_camera =
     Camera_new (fvec3_fromValues (Finite 1) (Finite 0) (Finite 0))
       (fvec3_fromValues (Finite 2) (Finite 0) (Finite 0))
       (fvec3_fromValues (Finite 0) (Finite 1) (Finite 0))"

definition tilted_camera :: Camera where
  "tilted_camera =
     Camera_new (fvec3_fromValues (Finite 0) (Finite 0) (Finite 0))
       (fvec3_fromValues (Finite 0) (Finite 1) (Finite 1))
       (fvec3_fromValues (Finite 0) (Finite (- 1)) (Finite 1))"

text \<open>
  The angle \<open>Math.PI / 2\<close>, and an engine given only at the arguments that the examples
  pass, where it returns the correctly rounded values: \<open>Math.sin(Math.PI / 2)\<close> is
  \<open>1\<close>, \<open>Math.cos(Math.PI / 2)\<close> is \<open>6.123233995736766e-17\<close> and
  \<open>Math.tan(glMatrix.toRadian(45) / 2)\<close> is \<open>0.41421356237309503\<close>.
\<close>

definition half_pi :: number where
  "half_pi = num_div Math_PI (Finite 2)"

definition example_engine :: engine where
  "example_engine =
     \<lparr>Math_sin = (\<lambda>x. if x = half_pi then Finite 1 else NaN),
      Math_cos = (\<lambda>x. if x = half_pi then Finite (4967757600021511 / 2 ^ 106) else NaN),
      Math_tan = (\<lambda>x. if x = num_div (glMatrix_toRadian (Finite 45)) (Finite 2)
                        then Finite (3730904090310553 / 2 ^ 53) else NaN)\<rparr>"

section \<open>JavaScript values\<close>

text \<open>
  A property of an object that holds an object is \<open>undefined\<close> until it is assigned,
  \<open>null\<close> once the script nulls it, and otherwise refers to a value. Objects are truthy;
  \<open>undefined\<close> and \<open>null\<close> are falsy, and reading or writing a property of either
  throws a \<open>TypeError\<close>.
\<close>

datatype 'a slot = Undefined | Null | Val 'a

fun truthy :: "'a slot \<Rightarrow> bool" where
  "truthy (Val x) = True"
| "truthy Undefined = False"
| "truthy Null = False"

text \<open>A number is truthy unless it is zero: the test of \<open>nextFrameHandle\<close>.\<close>

fun truthy_number :: "nat slot \<Rightarrow> bool" where
  "truthy_number (Val n) = (n \<noteq> 0)"
| "truthy_number Undefined = False"
| "truthy_number Null = False"

datatype js_error = TypeError | SyntaxError

text \<open>
  A property key is a string. \<open>Idx n\<close> stands for the key that is the canonical decimal
  string of an array index \<open>n\<close> (\<open>'0'\<close>, \<open>'7'\<close>, \<open>'12'\<close>; an array index is below
  \<open>2^32 - 1\<close>), \<open>Str s\<close> for any other string. An object literal \<open>{}\<close> that is filled by assignments \<open>o[k] = v\<close> is the
  list of its own properties in the order in which \<open>for (var i in o)\<close> visits them:
  array-index keys in ascending numeric order first, then the other keys in the order in
  which they were created. Assigning to an existing key keeps its place.
\<close>

datatype key = Idx nat | Str string

type_synonym 'v obj = "(key \<times> 'v) list"

fun insert_index :: "nat \<Rightarrow> 'v \<Rightarrow> 'v obj \<Rightarrow> 'v obj" where
  "insert_index n v [] = [(Idx n, v)]"
| "insert_index n v ((Idx m, w) # rest) =
     (if n < m then (Idx n, v) # (Idx m, w) # rest
      else (Idx m, w) # insert_index n v rest)"
| "insert_index n v ((Str s, w) # rest) = (Idx n, v) # (Str s, w) # rest"

fun obj_update :: "key \<Rightarrow> 'v \<Rightarrow> 'v obj \<Rightarrow> 'v obj" where
  "obj_update k v [] = []"
| "obj_update k v ((k', w) # rest) =
     (if k = k' then (k, v) # rest else (k', w) # obj_update k v rest)"

definition obj_set :: "'v obj \<Rightarrow> key \<Rightarrow> 'v \<Rightarrow> 'v obj" where
  "obj_set ob k v =
     (if k \<in> set (map fst ob) then obj_update k v ob
      else (case k of Idx n \<Rightarrow> insert_index n v ob | Str s \<Rightarrow> ob @ [(k, v)]))"

definition obj_get :: "'v obj \<Rightarrow> key \<Rightarrow> 'v option" where
  "obj_get ob k = map_of ob k"

text \<open>
  What an operation does besides changing the scene: the entries it writes with
  \<open>console.error\<close>, the call of its \<open>callback\<close> argument, the cancelling of an animation
  frame. A callback argument is \<open>None\<close> when the caller passed none, so that calling it
  throws.
\<close>

datatype logged = LogText string | LogException js_error | LogStatus nat

datatype effect = ConsoleError logged | CallbackInvoked | CancelAnimationFrame nat

type_synonym callback = "unit option"

fun invoke :: "callback \<Rightarrow> effect list \<times> js_error option" where
  "invoke (Some f) = ([CallbackInvoked], None)"
| "invoke None = ([], Some TypeError)"

section \<open>The graphics context\<close>

text \<open>
  The WebGL context is the browser's. What the scripts read back from it is taken as
  given: per operation, the compile status of the vertex and of the fragment shader and
  the link and validate status of the program (\<open>None\<close> for success, otherwise the info
  log), the uniform and attribute locations, and the size of the canvas. The record also
  carries the engine that runs the scripts, for its \<open>Math.tan\<close>.
\<close>

record gl_context =
  vertex_log :: "string option"
  fragment_log :: "string option"
  link_log :: "string option"
  validate_log :: "string option"
  uniform_location :: "string \<Rightarrow> nat option"
  attrib_location :: "string \<Rightarrow> int"
  clientWidth :: real
  clientHeight :: real
  engine :: engine

datatype glenum =
  DEPTH_TEST | CULL_FACE | CCW | BACK | DEPTH_BUFFER_BIT | COLOR_BUFFER_BIT
  | TEXTURE_2D | TEXTURE0 | ARRAY_BUFFER | ELEMENT_ARRAY_BUFFER
  | FLOAT | TRIANGLES | UNSIGNED_SHORT

text \<open>
  A buffer is created and filled once (\<open>STATIC_DRAW\<close>), so it is identified with its
  contents: the numbers of a \<open>Float32Array\<close> (idealised as reals) or the entries of a
  \<open>Uint16Array\<close>, which keeps each index modulo \<open>2^16\<close>. A texture is identified with
  the URL of the image it was filled from.
\<close>

datatype buffer = Float32Buffer "real list" | Uint16Buffer "int list"

datatype texture = Texture string

record uniforms =
  mProj :: "nat option"
  mView :: "nat option"
  mWorld :: "nat option"
  ambientLightIntensity :: "nat option"
  sunDirection :: "nat option"
  sunColor :: "nat option"

record attribs =
  vPos :: int
  vNorm :: int
  vTexCoord :: int

record program =
  uniforms :: uniforms
  attribs :: attribs

text \<open>The calls that \<open>Scene.prototype.Render\<close> issues, with their arguments.\<close>

datatype gl_call =
  Enable glenum
  | FrontFace glenum
  | CullFace glenum
  | Viewport real real real real
  | ClearColor real real real real
  | Clear "glenum list"
  | UseProgram "program slot"
  | UniformMatrix4fv "nat option" bool mat4
  | Uniform3f "nat option" real real real
  | BindTexture glenum "texture option"
  | ActiveTexture glenum
  | BindBuffer glenum "buffer option"
  | VertexAttribPointer int nat glenum bool nat nat
  | EnableVertexAttribArray int
  | DrawElements glenum nat glenum nat

fun is_draw :: "gl_call \<Rightarrow> bool" where
  "is_draw (DrawElements mode count type offset) = True"
| "is_draw other = False"

section \<open>Model (examples/Tree/scripts/app.js)\<close>

record Model =
  vbo :: buffer
  ibo :: buffer
  nbo :: buffer
  tbo :: buffer
  nPoints :: nat
  world :: mat4

definition Model_new :: "real list \<Rightarrow> int list \<Rightarrow> real list \<Rightarrow> real list \<Rightarrow> Model" where
  "Model_new vertices indices normals texCoords =
     \<lparr>vbo = Float32Buffer vertices,
      ibo = Uint16Buffer (map (\<lambda>i. i mod 65536) indices),
      nbo = Float32Buffer normals,
      tbo = Float32Buffer texCoords,
      nPoints = length indices,
      world = mat4_create\<rparr>"

section \<open>Scene (examples/Tree/scripts/app.js)\<close>

record scene =
  gl :: gl_context
  models :: "Model obj slot"
  textures :: "texture obj slot"
  program :: "program slot"
  camera :: "Camera slot"
  viewMatrix :: "mat4 slot"
  projMatrix :: "mat4 slot"
  nextFrameHandle :: "nat slot"

text \<open>\<open>new Scene(gl)\<close> stores the context and nothing else.\<close>

definition Scene_new :: "gl_context \<Rightarrow> scene" where
  "Scene_new g =
     \<lparr>gl = g, models = Undefined, textures = Undefined, program = Undefined,
      camera = Undefined, viewMatrix = Undefined, projMatrix = Undefined,
      nextFrameHandle = Undefined\<rparr>"

text \<open>
  An operation returns the scene as it leaves it, its effects in order, and the
  exception it throws, if any. \<open>Load\<close> returns \<open>undefined\<close> on every path, so its only
  other channel to the caller is the callback.
\<close>

type_synonym result = "scene \<times> effect list \<times> js_error option"

definition Load_success :: "scene \<Rightarrow> scene" where
  "Load_success s =
     (let g = gl s;
          p = \<lparr>uniforms =
                 \<lparr>mProj = uniform_location g ''mProj'',
                  mView = uniform_location g ''mView'',
                  mWorld = uniform_location g ''mWorld'',
                  ambientLightIntensity = uniform_location g ''ambientLightIntensity'',
                  sunDirection = uniform_location g ''sun.direction'',
                  sunColor = uniform_location g ''sun.color''\<rparr>,
               attribs =
                 \<lparr>vPos = attrib_location g ''vertPosition'',
                  vNorm = attrib_location g ''vertNormal'',
                  vTexCoord = attrib_location g ''vertTexCoord''\<rparr>\<rparr>;
          cam = Camera_new (fvec3_fromValues (Finite 10) (Finite 0) (Finite 0))
                  (fvec3_fromValues (Finite 0) (Finite 0) (Finite 0))
                  (fvec3_fromValues (Finite 0) (Finite 1) (Finite 0))
      in s\<lparr>program := Val p,
           camera := Val cam,
           viewMatrix := Val (getViewMatrix cam),
           projMatrix := Val (mat4_perspective (engine g) (glMatrix_toRadian (Finite 45))
                               (num_div (round64 (clientWidth g)) (round64 (clientHeight g)))
                               (round64 (1 / 10)) (Finite 100))\<rparr>)"

definition Load :: "scene \<Rightarrow> callback \<Rightarrow> result" where
  "Load s0 cb =
     (let s = s0\<lparr>models := Val [], textures := Val []\<rparr>; g = gl s in
      case vertex_log g of
        Some info \<Rightarrow>
          (s, [ConsoleError (LogText (''Error compiling vertex shader: '' @ info))], None)
      | None \<Rightarrow>
      (case fragment_log g of
        Some info \<Rightarrow>
          (s, [ConsoleError (LogText (''Error compiling fragment shader: '' @ info))], None)
      | None \<Rightarrow>
      (case link_log g of
        Some info \<Rightarrow>
          (s, [ConsoleError (LogText (''Error linking program: '' @ info))], None)
      | None \<Rightarrow>
      (case validate_log g of
        Some info \<Rightarrow>
          (s, [ConsoleError (LogText (''Error validating program: '' @ info))], None)
      | None \<Rightarrow>
          (case invoke cb of (es, thrown) \<Rightarrow> (Load_success s, es, thrown))))))"

definition Pause :: "scene \<Rightarrow> effect list" where
  "Pause s =
     (case nextFrameHandle s of
        Val h \<Rightarrow> (if truthy_number (nextFrameHandle s) then [CancelAnimationFrame h] else [])
      | Undefined \<Rightarrow> []
      | Null \<Rightarrow> [])"

text \<open>
  The second block of \<open>Unload\<close> is guarded by \<open>this.models\<close> a second time. Its loop
  bound \<open>this.textures.length\<close> throws when \<open>textures\<close> is \<open>undefined\<close> or \<open>null\<close>
  and is \<open>undefined\<close> for the object \<open>Load\<close> creates, so the loop body never runs.
  The first loop nulls the entries of an object that is dropped in the next statement.
\<close>

definition unload_textures :: "scene \<Rightarrow> js_error + scene" where
  "unload_textures s =
     (case textures s of
        Val ts \<Rightarrow> Inr (s\<lparr>textures := Null\<rparr>)
      | Undefined \<Rightarrow> Inl TypeError
      | Null \<Rightarrow> Inl TypeError)"

definition Unload :: "scene \<Rightarrow> callback \<Rightarrow> result" where
  "Unload s0 cb =
     (let paused = Pause s0;
          s1 = (if truthy (models s0) then s0\<lparr>models := Null\<rparr> else s0)
      in case (if truthy (models s1) then unload_textures s1 else Inr s1) of
        Inl e \<Rightarrow> (s1, paused, Some e)
      | Inr s2 \<Rightarrow>
         (let s3 = (if truthy (camera s2) then s2\<lparr>camera := Null\<rparr> else s2);
              s4 = (if truthy (program s3) then s3\<lparr>program := Null\<rparr> else s3);
              s5 = (if truthy (projMatrix s4) then s4\<lparr>projMatrix := Null\<rparr> else s4);
              s6 = (if truthy (viewMatrix s5) then s5\<lparr>viewMatrix := Null\<rparr> else s5);
              s7 = (if truthy_number (nextFrameHandle s6)
                    then s6\<lparr>nextFrameHandle := Null\<rparr> else s6)
          in case invoke cb of (es, thrown) \<Rightarrow> (s7, paused @ es, thrown)))"

text \<open>
  \<open>AddModel\<close> sends a request and returns. Its work is done by two handlers: the
  request's \<open>onload\<close>, which parses the response inside \<open>try\<close>/\<open>catch\<close> and starts
  loading the image, and the image's \<open>onload\<close>, which registers the model and its
  texture and calls the callback. The response text either is not JSON, so that
  \<open>JSON.parse\<close> throws a \<open>SyntaxError\<close>, or is a document of the exporter format the
  function's comment requires, with its four arrays of numbers. An image that fails to
  load fires no handler: the script sets no \<open>onerror\<close>.
\<close>

record modelJSON =
  position_array :: "real list"
  index_array :: "int list"
  normal_array :: "real list"
  uv_array :: "real list"

datatype response_text = NotJSON | ExporterJSON modelJSON

record response =
  status :: nat
  responseText :: response_text

definition request_onload :: "response \<Rightarrow> effect list \<times> modelJSON option" where
  "request_onload r =
     (if status r > 199 \<and> status r < 300
      then (case responseText r of
              ExporterJSON j \<Rightarrow> ([], Some j)
            | NotJSON \<Rightarrow> ([ConsoleError (LogException SyntaxError)], None))
      else ([ConsoleError (LogStatus (status r))], None))"

definition image_onload :: "scene \<Rightarrow> key \<Rightarrow> modelJSON \<Rightarrow> string \<Rightarrow> callback \<Rightarrow> result" where
  "image_onload s ident j imgURL cb =
     (case models s of
        Val ms \<Rightarrow>
          (let s1 = s\<lparr>models := Val (obj_set ms ident
                        (Model_new (position_array j) (index_array j)
                           (normal_array j) (uv_array j)))\<rparr>
           in case textures s1 of
                Val ts \<Rightarrow>
                  (let s2 = s1\<lparr>textures := Val (obj_set ts ident (Texture imgURL))\<rparr>
                   in case invoke cb of (es, thrown) \<Rightarrow> (s2, es, thrown))
              | Undefined \<Rightarrow> (s1, [], Some TypeError)
              | Null \<Rightarrow> (s1, [], Some TypeError))
      | Undefined \<Rightarrow> (s, [], Some TypeError)
      | Null \<Rightarrow> (s, [], Some TypeError))"

text \<open>
  The whole of one \<open>AddModel(id, jsonURL, imgURL, callback)\<close>, given what the network
  delivers: the response to the request and whether the image loads. The scene is the
  one the handlers find; nothing else runs in between.
\<close>

definition AddModel :: "scene \<Rightarrow> key \<Rightarrow> response \<Rightarrow> bool \<Rightarrow> string \<Rightarrow> callback \<Rightarrow> result" where
  "AddModel s ident r image_loads imgURL cb =
     (case request_onload r of
        (es, None) \<Rightarrow> (s, es, None)
      | (es, Some j) \<Rightarrow>
          (if image_loads
           then (case image_onload s ident j imgURL cb of
                   (s', es', thrown) \<Rightarrow> (s', es @ es', thrown))
           else (s, es, None)))"

text \<open>
  \<open>Render\<close> returns the calls it issues, in order, and the exception that stops it, if
  any: reading a property of a missing program or texture map throws, and so does
  \<open>uniformMatrix4fv\<close> when it is handed \<open>undefined\<close> or \<open>null\<close> for the matrix.
  \<open>gl.FALSE\<close> is not a constant of the context and reads as \<open>undefined\<close>, which the
  calls take as \<open>false\<close>.
\<close>

definition mesh_calls :: "program \<Rightarrow> texture option \<Rightarrow> Model \<Rightarrow> gl_call list" where
  "mesh_calls p tex m =
     [BindTexture TEXTURE_2D tex,
      ActiveTexture TEXTURE0,
      UniformMatrix4fv (mWorld (uniforms p)) False (world m),
      BindBuffer ARRAY_BUFFER (Some (vbo m)),
      VertexAttribPointer (vPos (attribs p)) 3 FLOAT False (3 * 4) 0,
      EnableVertexAttribArray (vPos (attribs p)),
      BindBuffer ARRAY_BUFFER (Some (tbo m)),
      VertexAttribPointer (vTexCoord (attribs p)) 2 FLOAT False (2 * 4) 0,
      EnableVertexAttribArray (vTexCoord (attribs p)),
      BindBuffer ARRAY_BUFFER (Some (nbo m)),
      VertexAttribPointer (vNorm (attribs p)) 3 FLOAT False (3 * 4) 0,
      EnableVertexAttribArray (vNorm (attribs p)),
      BindBuffer ARRAY_BUFFER None,
      BindBuffer ELEMENT_ARRAY_BUFFER (Some (ibo m)),
      DrawElements TRIANGLES (nPoints m) UNSIGNED_SHORT 0,
      BindBuffer ELEMENT_ARRAY_BUFFER None]"

fun draw_meshes ::
  "program \<Rightarrow> texture obj slot \<Rightarrow> Model obj \<Rightarrow> gl_call list \<times> js_error option" where
  "draw_meshes p ts [] = ([], None)"
| "draw_meshes p ts ((i, m) # rest) =
     (case ts of
        Val tx \<Rightarrow>
          (case draw_meshes p ts rest of
             (calls, thrown) \<Rightarrow> (mesh_calls p (obj_get tx i) m @ calls, thrown))
      | Undefined \<Rightarrow> ([], Some TypeError)
      | Null \<Rightarrow> ([], Some TypeError))"

definition frame_setup :: "scene \<Rightarrow> gl_call list" where
  "frame_setup s =
     [Enable DEPTH_TEST, Enable CULL_FACE, FrontFace CCW, CullFace BACK,
      Viewport 0 0 (clientWidth (gl s)) (clientHeight (gl s)),
      ClearColor 0 0 0 (3 / 10),
      Clear [DEPTH_BUFFER_BIT, COLOR_BUFFER_BIT],
      UseProgram (program s)]"

definition light_uniforms :: "program \<Rightarrow> gl_call list" where
  "light_uniforms p =
     [Uniform3f (ambientLightIntensity (uniforms p)) (2 / 10) (2 / 10) (2 / 10),
      Uniform3f (sunDirection (uniforms p)) 3 4 (-2),
      Uniform3f (sunColor (uniforms p)) (9 / 10) (9 / 10) (9 / 10)]"

definition frame_uniforms :: "scene \<Rightarrow> program \<Rightarrow> gl_call list \<times> js_error option" where
  "frame_uniforms s p =
     (case projMatrix s of
        Val pm \<Rightarrow>
          (case viewMatrix s of
             Val vm \<Rightarrow>
               (UniformMatrix4fv (mProj (uniforms p)) False pm
                  # UniformMatrix4fv (mView (uniforms p)) False vm
                  # light_uniforms p, None)
           | Undefined \<Rightarrow> ([UniformMatrix4fv (mProj (uniforms p)) False pm], Some TypeError)
           | Null \<Rightarrow> ([UniformMatrix4fv (mProj (uniforms p)) False pm], Some TypeError))
      | Undefined \<Rightarrow> ([], Some TypeError)
      | Null \<Rightarrow> ([], Some TypeError))"

definition Render :: "scene \<Rightarrow> gl_call list \<times> js_error option" where
  "Render s =
     (case program s of
        Val p \<Rightarrow>
          (case frame_uniforms s p of
             (us, Some e) \<Rightarrow> (frame_setup s @ us, Some e)
           | (us, None) \<Rightarrow>
               (case models s of
                  Val ms \<Rightarrow>
                    (case draw_meshes p (textures s) ms of
                       (calls, thrown) \<Rightarrow> (frame_setup s @ us @ calls, thrown))
                | Undefined \<Rightarrow> (frame_setup s @ us, None)
                | Null \<Rightarrow> (frame_setup s @ us, None)))
      | Undefined \<Rightarrow> (frame_setup s, Some TypeError)
      | Null \<Rightarrow> (frame_setup s, Some TypeError))"



fun index_of :: "key \<Rightarrow> nat option" where
  "index_of (Idx n) = Some n"
| "index_of (Str s) = None"



section \<open>The renderer and Material classes\<close>

text \<open>
  \<open>new renderer(gl)\<close> starts from a fresh object, whose only inherited property is
  \<open>render\<close>. The constructor returns the object on every \<open>return\<close>. The global
  \<open>scene\<close> it reads is given by the length of \<open>scene.pointLights\<close>, or \<open>None\<close>
  when that cannot be read, so that reading it throws.
\<close>

datatype webgl_program = WebGLProgram (linked: bool)

record renderer_uniforms =
  r_pointLights :: "nat option list list"
  r_mProj :: "nat option"
  r_mView :: "nat option"
  r_mWorld :: "nat option"
  r_viewPos :: "nat option"
  r_materialShine :: "int option"
  r_materialDiffuse :: "nat option"
  r_materialSpecular :: "nat option"

record renderer =
  r_gl :: "gl_context slot"
  r_program :: "webgl_program slot"
  r_uniforms :: "renderer_uniforms slot"
  r_attribs :: "attribs slot"

definition pointLight_locations :: "gl_context \<Rightarrow> string \<Rightarrow> nat option list" where
  "pointLight_locations g i =
     map (\<lambda>field. uniform_location g (''u_pointLights['' @ i @ ''].'' @ field))
       [''position'', ''ambient'', ''diffuse'', ''specular'',
        ''constant'', ''linear'', ''quadratic'']"

text \<open>The decimal digits of a loop index, as string concatenation writes them.\<close>

fun digits :: "nat \<Rightarrow> nat \<Rightarrow> string" where
  "digits 0 n = []"
| "digits (Suc fuel) n =
     (if n < 10 then [char_of (48 + n)]
      else digits fuel (n div 10) @ [char_of (48 + n mod 10)])"

definition decimal :: "nat \<Rightarrow> string" where
  "decimal n = digits (Suc n) n"

definition renderer_locations :: "gl_context \<Rightarrow> nat \<Rightarrow> renderer_uniforms \<Rightarrow> renderer_uniforms" where
  "renderer_locations g len u =
     u\<lparr>r_pointLights := map (\<lambda>i. pointLight_locations g (decimal i)) [0..<len],
       r_mProj := uniform_location g ''u_proj'',
       r_mView := uniform_location g ''u_view'',
       r_mWorld := uniform_location g ''u_world'',
       r_viewPos := uniform_location g ''u_viewPosition'',
       r_materialShine := Some (attrib_location g ''a_vertPosition''),
       r_materialDiffuse := uniform_location g ''u_material.diffuse'',
       r_materialSpecular := uniform_location g ''u_material.specular''\<rparr>"

definition renderer_new ::
  "gl_context \<Rightarrow> nat option \<Rightarrow> renderer \<times> effect list \<times> js_error option" where
  "renderer_new g scene_pointLights =
     (let me = \<lparr>r_gl = Val g, r_program = Undefined, r_uniforms = Undefined,
                r_attribs = Undefined\<rparr> in
      case vertex_log g of
        Some info \<Rightarrow>
          (me, [ConsoleError (LogText (''Error compiling vertex shader: '' @ info))], None)
      | None \<Rightarrow>
      (case fragment_log g of
        Some info \<Rightarrow>
          (me, [ConsoleError (LogText (''Error compiling fragment shader: '' @ info))], None)
      | None \<Rightarrow>
      (case link_log g of
        Some info \<Rightarrow>
          (me, [ConsoleError (LogText (''Error linking program: '' @ info))], None)
      | None \<Rightarrow>
      (case validate_log g of
        Some info \<Rightarrow>
          (me, [ConsoleError (LogText (''Error validating program: '' @ info))], None)
      | None \<Rightarrow>
         (let me1 = me\<lparr>r_program := Val (WebGLProgram True)\<rparr> in
          case r_uniforms me1 of
            Undefined \<Rightarrow> (me1, [], Some TypeError)
          | Null \<Rightarrow> (me1, [], Some TypeError)
          | Val u \<Rightarrow>
              (case scene_pointLights of
                 None \<Rightarrow> (me1\<lparr>r_uniforms := Val (u\<lparr>r_pointLights := []\<rparr>)\<rparr>, [],
                            Some TypeError)
               | Some len \<Rightarrow>
                   (me1\<lparr>r_uniforms := Val (renderer_locations g len u),
                        r_attribs := Val \<lparr>vPos = attrib_location g ''a_vertPosition'',
                                           vNorm = attrib_location g ''a_vertNormal'',
                                           vTexCoord = attrib_location g ''a_vertTexCoord''\<rparr>\<rparr>,
                    [], None)))))))"

text \<open>
  \<open>class Material\<close>: \<open>getShader\<close> returns the shader or \<open>null\<close>. The constructor
  of a base class yields the new object whatever it returns, so \<open>return null\<close> after a
  failed link still gives the caller the object, holding the program that did not link.
\<close>

record Material =
  m_gl :: gl_context
  m_program :: "webgl_program slot"

definition getShader :: "string option \<Rightarrow> unit slot \<times> effect list" where
  "getShader compile_log =
     (case compile_log of
        Some info \<Rightarrow>
          (Null, [ConsoleError (LogText (''Shader Error: '' @ [CHR 0x0A] @ info))])
      | None \<Rightarrow> (Val (), []))"

definition Material_new :: "gl_context \<Rightarrow> Material \<times> effect list" where
  "Material_new g =
     (case getShader (vertex_log g) of (vsShader, es1) \<Rightarrow>
      case getShader (fragment_log g) of (fsShader, es2) \<Rightarrow>
        if truthy vsShader \<and> truthy fsShader
        then (case link_log g of
                Some info \<Rightarrow>
                  (\<lparr>m_gl = g, m_program = Val (WebGLProgram False)\<rparr>,
                   es1 @ es2 @
                   [ConsoleError (LogText (''Cannot load shader: '' @ [CHR 0x0A] @ info))])
              | None \<Rightarrow> (\<lparr>m_gl = g, m_program = Val (WebGLProgram True)\<rparr>, es1 @ es2))
        else (\<lparr>m_gl = g, m_program = Undefined\<rparr>, es1 @ es2))"

text \<open>
  A shader build fails when one of the stages the operation checks reports failure.
\<close>

definition build_fails :: "gl_context \<Rightarrow> bool" where
  "build_fails g \<longleftrightarrow>
     vertex_log g \<noteq> None \<or> fragment_log g \<noteq> None \<or> link_log g \<noteq> None \<or>
     validate_log g \<noteq> None"

section \<open>The fragment shaders\<close>

text \<open>
  The shader sources are GLSL text in string constants of the scripts. The functions
  below are the arithmetic of that text over real numbers: a \<open>vec3\<close> of the shading
  language is three reals, with the sum, the difference, the dot product, the product with
  a scalar and the length of vectors. \<open>normalize\<close> divides by the length,
  \<open>reflect(I, N)\<close> is \<open>I - 2 * dot(N, I) * N\<close>, a product of two vectors is taken by
  components, and texture reads are inputs.
\<close>

datatype vec3 = Vec3 (vx: real) (vy: real) (vz: real)

definition vec3_add :: "vec3 \<Rightarrow> vec3 \<Rightarrow> vec3" where
  "vec3_add a b = Vec3 (vx a + vx b) (vy a + vy b) (vz a + vz b)"

definition vec3_subtract :: "vec3 \<Rightarrow> vec3 \<Rightarrow> vec3" where
  "vec3_subtract a b = Vec3 (vx a - vx b) (vy a - vy b) (vz a - vz b)"

definition vec3_dot :: "vec3 \<Rightarrow> vec3 \<Rightarrow> real" where
  "vec3_dot a b = vx a * vx b + vy a * vy b + vz a * vz b"

definition vec3_scale :: "vec3 \<Rightarrow> real \<Rightarrow> vec3" where
  "vec3_scale a b = Vec3 (vx a * b) (vy a * b) (vz a * b)"

definition vec3_length :: "vec3 \<Rightarrow> real" where
  "vec3_length a = sqrt (vx a * vx a + vy a * vy a + vz a * vz a)"

definition glsl_normalize :: "vec3 \<Rightarrow> vec3" where
  "glsl_normalize v = vec3_scale v (1 / vec3_length v)"

definition glsl_reflect :: "vec3 \<Rightarrow> vec3 \<Rightarrow> vec3" where
  "glsl_reflect i n = vec3_subtract i (vec3_scale n (2 * vec3_dot n i))"

definition glsl_mul :: "vec3 \<Rightarrow> vec3 \<Rightarrow> vec3" where
  "glsl_mul a b = Vec3 (vx a * vx b) (vy a * vy b) (vz a * vz b)"

definition glsl_neg :: "vec3 \<Rightarrow> vec3" where
  "glsl_neg a = Vec3 (- vx a) (- vy a) (- vz a)"

text \<open>\<open>mainFragmentShaderText\<close> of examples/practice/scripts/gl-scene.js.\<close>

record main_inputs =
  in_position :: vec3
  in_normal :: vec3
  baseColor_rgb :: vec3
  baseColor_a :: real
  uEyePosition :: vec3
  uLight_position :: vec3
  uLight_color :: vec3

definition main_attenuation :: "main_inputs \<Rightarrow> real" where
  "main_attenuation i =
     (let lightVec = vec3_subtract (uLight_position i) (in_position i)
      in 1 - vec3_length lightVec)"

definition main_lighting :: "main_inputs \<Rightarrow> vec3" where
  "main_lighting i =
     (let normal = glsl_normalize (in_normal i);
          eyeDirection = glsl_normalize (vec3_subtract (uEyePosition i) (in_position i));
          lightVec = vec3_subtract (uLight_position i) (in_position i);
          lightDirection = glsl_normalize lightVec;
          reflectionDirection = glsl_reflect (glsl_neg lightDirection) normal;
          nDotL = max (vec3_dot lightDirection normal) 0;
          diffuse = vec3_scale (uLight_color i) nDotL;
          ambient = 1 / 10;
          specular = vec3_scale (uLight_color i)
                       (max (vec3_dot reflectionDirection eyeDirection) 0 powr 20)
      in vec3_add (vec3_add (Vec3 ambient ambient ambient) diffuse) specular)"

definition mainFragment :: "main_inputs \<Rightarrow> vec3 \<times> real" where
  "mainFragment i =
     (glsl_mul (vec3_scale (main_lighting i) (main_attenuation i)) (baseColor_rgb i),
      baseColor_a i)"

text \<open>\<open>CalcPointLight\<close> of the Phong fragment shader (and, with the same attenuation,
  \<open>CalcSpotLight\<close>).\<close>

record PointLight =
  pl_position :: vec3
  pl_ambient :: vec3
  pl_diffuse :: vec3
  pl_specular :: vec3
  pl_constant :: real
  pl_linear :: real
  pl_quadratic :: real

definition point_attenuation :: "PointLight \<Rightarrow> real \<Rightarrow> real" where
  "point_attenuation light distance =
     1 / (pl_constant light + pl_linear light * distance
          + pl_quadratic light * (distance * distance))"

definition CalcPointLight ::
  "real \<Rightarrow> vec3 \<Rightarrow> vec3 \<Rightarrow> PointLight \<Rightarrow> vec3 \<Rightarrow> vec3 \<Rightarrow> vec3 \<Rightarrow> vec3" where
  "CalcPointLight shine texel_diffuse texel_specular light normal fragPos viewDir =
     (let lightDir = glsl_normalize (vec3_subtract (pl_position light) fragPos);
          diff = max (vec3_dot normal lightDir) 0;
          reflectDir = glsl_reflect (glsl_neg lightDir) normal;
          spec = max (vec3_dot viewDir reflectDir) 0 powr shine;
          distance = vec3_length (vec3_subtract (pl_position light) fragPos);
          attenuation = point_attenuation light distance;
          ambient = glsl_mul (pl_ambient light) texel_diffuse;
          diffuse = glsl_mul (vec3_scale (pl_diffuse light) diff) texel_diffuse;
          specular = glsl_mul (vec3_scale (pl_specular light) spec) texel_specular
      in vec3_add (vec3_add (vec3_scale ambient attenuation) (vec3_scale diffuse attenuation))
           (vec3_scale specular attenuation))"

section \<open>Example inputs\<close>

text \<open>
  A context on which every build succeeds, one whose vertex shader does not compile, and
  the scene of the Tree example after \<open>Load\<close> and one \<open>AddModel\<close> of a single
  triangle under the id \<open>tree\<close>.
\<close>

definition example_gl :: gl_context where
  "example_gl =
     \<lparr>vertex_log = None, fragment_log = None, link_log = None, validate_log = None,
      uniform_location = (\<lambda>name. Some (length name)),
      attrib_location = (\<lambda>name. int (length name)),
      clientWidth = 800, clientHeight = 600, engine = example_engine\<rparr>"

definition failing_gl :: gl_context where
  "failing_gl = example_gl\<lparr>vertex_log := Some ''ERROR: 0:1: syntax error''\<rparr>"

text \<open>
  Contexts on which another stage fails: the fragment shader alone, both shaders, the
  link, and the validation.
\<close>

definition fragment_failing_gl :: gl_context where
  "fragment_failing_gl = example_gl\<lparr>fragment_log := Some ''ERROR: 0:2: undeclared''\<rparr>"

definition both_failing_gl :: gl_context where
  "both_failing_gl = failing_gl\<lparr>fragment_log := Some ''ERROR: 0:2: undeclared''\<rparr>"

definition link_failing_gl :: gl_context where
  "link_failing_gl = example_gl\<lparr>link_log := Some ''varying mismatch''\<rparr>"

definition validate_failing_gl :: gl_context where
  "validate_failing_gl = example_gl\<lparr>validate_log := Some ''no sampler bound''\<rparr>"

definition triangle :: modelJSON where
  "triangle =
     \<lparr>position_array = [0, 0, 0, 1, 0, 0, 0, 1, 0],
      index_array = [0, 1, 2],
      normal_array = [0, 0, 1, 0, 0, 1, 0, 0, 1],
      uv_array = [0, 0, 1, 0, 0, 1]\<rparr>"

definition loaded_scene :: scene where
  "loaded_scene = fst (Load (Scene_new example_gl) (Some ()))"

definition tree_scene :: scene where
  "tree_scene =
     fst (AddModel loaded_scene (Str ''tree'')
            \<lparr>status = 200, responseText = ExporterJSON triangle\<rparr>
            True ''./models/tree.png'' (Some ()))"



text \<open>
  The coefficients the comment in gl-scene.js calls a good light attenuation:
  \<open>[1.0, 0.045, 0.0075]\<close>.
\<close>

definition good_light :: PointLight where
  "good_light =
     \<lparr>pl_position = Vec3 0 0 0, pl_ambient = Vec3 1 1 1, pl_diffuse = Vec3 1 1 1,
      pl_specular = Vec3 1 1 1, pl_constant = 1, pl_linear = 45 / 1000,
      pl_quadratic = 75 / 10000\<rparr>"

section \<open>Rounding\<close>

text \<open>
  The value of a rounding is computed from the binade of its argument: for
  \<open>2^e \<le> |x| < 2^(e + 1)\<close> the spacing is that of the exponent \<open>e\<close>. Rounding
  commutes with negation, a number of the format is left as it is, and the rounding of a
  square root is found by squaring the two midpoints next to it.
\<close>

lemma pow2_pos: "0 < pow2 e"
  by (simp add: pow2_def)

lemma pow2_powr: "pow2 e = 2 powr (of_int e)"
proof (cases "0 \<le> e")
  case True
  then obtain n where "e = int n" using nonneg_int_cases by blast
  then show ?thesis
    by (simp add: pow2_def powr_realpow)
next
  case False
  then obtain n where e: "e = - int n" "0 < n"
    by (metis neg_int_cases not_le)
  have "(2::real) powr (- real n) = 1 / 2 powr (real n)"
    by (simp add: powr_minus_divide)
  also have "\<dots> = 1 / 2 ^ n"
    by (simp add: powr_realpow)
  finally show ?thesis using e by (simp add: pow2_def)
qed

lemma floor_log2:
  assumes "pow2 e \<le> \<bar>x\<bar>" "\<bar>x\<bar> < pow2 (e + 1)"
  shows "\<lfloor>log 2 \<bar>x\<bar>\<rfloor> = e"
proof -
  have pos: "0 < \<bar>x\<bar>"
    using assms(1) pow2_pos [of e] by linarith
  have "2 powr (of_int e) \<le> \<bar>x\<bar> \<and> \<bar>x\<bar> < 2 powr (of_int (e + 1))"
    using assms by (simp only: pow2_powr)
  then show ?thesis
    using pos by (simp add: floor_log_eq_powr_iff)
qed

lemma round_to_eval:
  assumes "pow2 e \<le> \<bar>x\<bar>" "\<bar>x\<bar> < pow2 (e + 1)"
  shows "round_to p emin emax x = round_at p emax (max e emin) x"
proof -
  have "x \<noteq> 0"
    using assms(1) pow2_pos [of e] by auto
  then show ?thesis
    by (simp add: round_to_def floor_log2 [OF assms])
qed

lemma rne_of_int: "rne (of_int n) = n"
  by (simp add: rne_def)

lemma rne_minus: "rne (- x) = - rne x"
proof (cases "x = of_int \<lfloor>x\<rfloor>")
  case True
  then have "rne x = \<lfloor>x\<rfloor>" by (metis rne_of_int)
  moreover have "- x = of_int (- \<lfloor>x\<rfloor>)" using True by simp
  then have "rne (- x) = - \<lfloor>x\<rfloor>" by (metis rne_of_int)
  ultimately show ?thesis by simp
next
  case False
  define n where "n = \<lfloor>x\<rfloor>"
  define r where "r = x - of_int n"
  have "\<lceil>x\<rceil> = n + 1" using False by (simp add: ceiling_altdef n_def)
  then have fl: "\<lfloor>- x\<rfloor> = - n - 1" by (simp add: ceiling_def)
  have r': "- x - of_int (- n - 1) = 1 - r" by (simp add: r_def)
  have A: "rne x = (if r < 1 / 2 then n else if 1 / 2 < r then n + 1
                    else if even n then n else n + 1)"
    by (simp add: rne_def Let_def n_def r_def)
  have B: "rne (- x) = (if 1 - r < 1 / 2 then - n - 1 else if 1 / 2 < 1 - r then - n
                    else if even (- n - 1) then - n - 1 else - n)"
    unfolding rne_def Let_def fl r' by simp
  consider "r < 1 / 2" | "1 / 2 < r" | "r = 1 / 2" by linarith
  then show ?thesis
  proof cases
    case 1
    then show ?thesis unfolding A B by simp
  next
    case 2
    then show ?thesis unfolding A B by simp
  next
    case 3
    then show ?thesis unfolding A B by simp
  qed
qed

lemma round_at_minus:
  "round_at p emax e (- x) =
     (case round_at p emax e x of Finite y \<Rightarrow> Finite (- y) | PosInf \<Rightarrow> NegInf
        | NegInf \<Rightarrow> (if x = 0 then NegInf else PosInf) | NaN \<Rightarrow> NaN)"
  by (simp add: round_at_def Let_def rne_minus)

lemma pow2_mono: "a \<le> b \<Longrightarrow> pow2 a \<le> pow2 b"
  by (simp add: pow2_powr)

lemma round_to_exact:
  assumes "pow2 e \<le> \<bar>x\<bar>" "\<bar>x\<bar> < pow2 (e + 1)" "emin \<le> e" "e \<le> emax"
    and "x / pow2 (e - int p + 1) \<in> \<int>"
  shows "round_to p emin emax x = Finite x"
proof -
  obtain m where m: "x / pow2 (e - int p + 1) = of_int m"
    using assms(5) by (auto elim: Ints_cases)
  have u: "pow2 (e - int p + 1) \<noteq> 0" using pow2_pos [of "e - int p + 1"] by simp
  have y: "of_int (rne (x / pow2 (e - int p + 1))) * pow2 (e - int p + 1) = x"
    unfolding m rne_of_int using m u by (simp add: field_simps)
  have "\<bar>x\<bar> < pow2 (emax + 1)"
    using assms(2) pow2_mono [of "e + 1" "emax + 1"] assms(4) by simp
  then show ?thesis
    using assms(3) by (simp add: round_to_eval [OF assms(1,2)] round_at_def Let_def y max_def)
qed

lemma round64_exact:
  assumes "pow2 e \<le> \<bar>x\<bar>" "\<bar>x\<bar> < pow2 (e + 1)" "- 1022 \<le> e" "e \<le> 1023"
    and "x / pow2 (e - 52) \<in> \<int>"
  shows "round64 x = Finite x"
  unfolding round64_def using assms by (intro round_to_exact [where e = e]) simp_all

lemma round32_exact:
  assumes "pow2 e \<le> \<bar>x\<bar>" "\<bar>x\<bar> < pow2 (e + 1)" "- 126 \<le> e" "e \<le> 127"
    and "x / pow2 (e - 23) \<in> \<int>"
  shows "round32 x = Finite x"
  unfolding round32_def using assms by (intro round_to_exact [where e = e]) simp_all

lemma round_zero: "round64 0 = Finite 0" "round32 0 = Finite 0"
  by (simp_all add: round64_def round32_def round_to_def)

lemma round_to_minus: "round_to p emin emax (- x) = num_neg (round_to p emin emax x)"
proof (cases "x = 0")
  case True
  then show ?thesis by (simp add: round_to_def)
next
  case False
  then show ?thesis
    by (simp add: round_to_def round_at_minus split: number.splits)
qed

lemma round64_minus: "round64 (- x) = num_neg (round64 x)"
  by (simp add: round64_def round_to_minus)

lemma round32_minus: "round32 (- x) = num_neg (round32 x)"
  by (simp add: round32_def round_to_minus)

lemma rne_near:
  assumes "of_int n - 1 / 2 < x" "x < of_int n + 1 / 2"
  shows "rne x = n"
proof (cases "of_int n \<le> x")
  case True
  then have fl: "\<lfloor>x\<rfloor> = n" using assms(2) by (intro floor_unique) simp_all
  show ?thesis using assms(2) by (simp add: rne_def Let_def fl)
next
  case False
  then have fl: "\<lfloor>x\<rfloor> = n - 1" using assms(1) by (intro floor_unique) simp_all
  show ?thesis using assms(1) False by (simp add: rne_def Let_def fl)
qed

lemma round_at_sqrt:
  assumes "0 < n" "0 < u"
    and "((of_int n - 1 / 2) * u)\<^sup>2 < a" "a < ((of_int n + 1 / 2) * u)\<^sup>2"
  shows "rne (sqrt a / u) = n"
proof -
  have n: "(1::real) \<le> of_int n" using assms(1) by simp
  have lo: "(of_int n - 1 / 2) * u < sqrt a"
    using assms(3) by (rule real_less_rsqrt)
  have hi: "sqrt a < (of_int n + 1 / 2) * u"
    using assms(2,4) n by (intro real_less_lsqrt) simp_all
  show ?thesis
    using lo hi assms(2) by (intro rne_near) (simp_all add: field_simps)
qed

text \<open>
  The error of a rounding whose result is finite: at most the fraction \<open>2^-p\<close> of the
  argument, or half the spacing of the subnormal numbers.
\<close>

lemma rne_err: "\<bar>of_int (rne z) - z\<bar> \<le> 1 / 2"
proof -
  have "of_int \<lfloor>z\<rfloor> \<le> z" "z < of_int \<lfloor>z\<rfloor> + 1" by linarith+
  then show ?thesis
    by (auto simp: rne_def Let_def)
qed

lemma pow2_add: "pow2 (a + b) = pow2 a * pow2 b"
  by (simp add: pow2_powr powr_add)

lemma pow2_floor_log:
  assumes "x \<noteq> 0"
  shows "pow2 \<lfloor>log 2 \<bar>x\<bar>\<rfloor> \<le> \<bar>x\<bar>"
proof -
  have "2 powr (of_int \<lfloor>log 2 \<bar>x\<bar>\<rfloor>) \<le> 2 powr (log 2 \<bar>x\<bar>)"
    by (intro powr_mono) simp_all
  also have "\<dots> = \<bar>x\<bar>" using assms by simp
  finally show ?thesis by (simp add: pow2_powr)
qed

lemma round_to_err:
  assumes "round_to p emin emax x = Finite y"
  shows "\<bar>y - x\<bar> \<le> \<bar>x\<bar> * pow2 (- int p) + pow2 (emin - int p)"
proof (cases "x = 0")
  case True
  then show ?thesis using assms pow2_pos [of "emin - int p"] by (simp add: round_to_def)
next
  case False
  define e where "e = max \<lfloor>log 2 \<bar>x\<bar>\<rfloor> emin"
  define u where "u = pow2 (e - int p + 1)"
  have u: "0 < u" by (simp add: u_def pow2_pos)
  have "round_at p emax e x = Finite y"
    using assms False by (simp add: round_to_def e_def)
  then have y: "y = of_int (rne (x / u)) * u"
    by (simp add: round_at_def Let_def u_def split: if_splits)
  have "y - x = (of_int (rne (x / u)) - x / u) * u"
    using u by (simp add: y left_diff_distrib)
  then have "\<bar>y - x\<bar> = \<bar>of_int (rne (x / u)) - x / u\<bar> * u"
    using u by (simp add: abs_mult)
  also have "\<dots> \<le> 1 / 2 * u"
    using rne_err [of "x / u"] u by (intro mult_right_mono) simp_all
  also have "\<dots> = pow2 (e - int p)"
    using pow2_add [of "e - int p" 1] by (simp add: u_def pow2_def [of 1])
  finally have b: "\<bar>y - x\<bar> \<le> pow2 (e - int p)" .
  show ?thesis
  proof (cases "emin \<le> \<lfloor>log 2 \<bar>x\<bar>\<rfloor>")
    case True
    then have "e = \<lfloor>log 2 \<bar>x\<bar>\<rfloor>" by (simp add: e_def)
    then have "pow2 (e - int p) = pow2 \<lfloor>log 2 \<bar>x\<bar>\<rfloor> * pow2 (- int p)"
      using pow2_add [of "\<lfloor>log 2 \<bar>x\<bar>\<rfloor>" "- int p"] by simp
    also have "\<dots> \<le> \<bar>x\<bar> * pow2 (- int p)"
      using pow2_floor_log [OF False] pow2_pos [of "- int p"] by (intro mult_right_mono) simp_all
    finally show ?thesis using b pow2_pos [of "emin - int p"] by linarith
  next
    case False
    then have "e = emin" by (simp add: e_def)
    moreover have "0 \<le> \<bar>x\<bar> * pow2 (- int p)"
      using pow2_pos [of "- int p"] by simp
    ultimately show ?thesis using b by simp
  qed
qed

lemma round64_err:
  assumes "round64 x = Finite y"
  shows "\<bar>y - x\<bar> \<le> \<bar>x\<bar> / 2 ^ 53 + 1 / 2 ^ 1075"
  using round_to_err [of 53 "- 1022" 1023 x y] assms
  by (simp add: round64_def pow2_def)

lemma round32_err:
  assumes "round32 x = Finite y"
  shows "\<bar>y - x\<bar> \<le> \<bar>x\<bar> / 2 ^ 24 + 1 / 2 ^ 150"
  using round_to_err [of 24 "- 126" 127 x y] assms
  by (simp add: round32_def pow2_def)

text \<open>
  A rounding is finite when its argument is not above a power of two of the format.
\<close>

lemma round_at_near:
  "\<bar>of_int (rne (x / pow2 (e - int p + 1))) * pow2 (e - int p + 1) - x\<bar> \<le> pow2 (e - int p)"
proof -
  define u where "u = pow2 (e - int p + 1)"
  have u: "0 < u" by (simp add: u_def pow2_pos)
  have "of_int (rne (x / u)) * u - x = (of_int (rne (x / u)) - x / u) * u"
    using u by (simp add: left_diff_distrib)
  then have "\<bar>of_int (rne (x / u)) * u - x\<bar> = \<bar>of_int (rne (x / u)) - x / u\<bar> * u"
    using u by (simp add: abs_mult)
  also have "\<dots> \<le> 1 / 2 * u"
    using rne_err [of "x / u"] u by (intro mult_right_mono) simp_all
  also have "\<dots> = pow2 (e - int p)"
    using pow2_add [of "e - int p" 1] by (simp add: u_def pow2_def [of 1])
  finally show ?thesis unfolding u_def .
qed

lemma pow2_half: "0 < p \<Longrightarrow> pow2 (- int p) \<le> 1 / 2"
proof -
  assume "0 < p"
  then have "pow2 (- int p) \<le> pow2 (- 1)" by (intro pow2_mono) simp
  then show ?thesis by (simp add: pow2_def [of "- 1"])
qed

lemma floor_log_less:
  assumes "x \<noteq> 0" "\<lfloor>log 2 \<bar>x\<bar>\<rfloor> < e"
  shows "\<bar>x\<bar> < pow2 e"
proof -
  have "log 2 \<bar>x\<bar> < of_int e" using assms(2) by linarith
  then have "2 powr (log 2 \<bar>x\<bar>) < 2 powr (of_int e)" by simp
  then show ?thesis using assms(1) by (simp add: pow2_powr)
qed

lemma round_to_finite:
  assumes "\<bar>x\<bar> \<le> pow2 m" "m \<le> emax" "emin \<le> emax" "0 < p"
  shows "\<exists>y. round_to p emin emax x = Finite y"
proof (cases "x = 0")
  case True
  then show ?thesis by (simp add: round_to_def)
next
  case False
  define e where "e = max \<lfloor>log 2 \<bar>x\<bar>\<rfloor> emin"
  define y where "y = of_int (rne (x / pow2 (e - int p + 1))) * pow2 (e - int p + 1)"
  have near: "\<bar>y - x\<bar> \<le> pow2 (e - int p)"
    unfolding y_def by (rule round_at_near)
  have h: "pow2 (e - int p) = pow2 e * pow2 (- int p)"
    using pow2_add [of e "- int p"] by simp
  have half: "pow2 (e - int p) \<le> pow2 e / 2"
    unfolding h using pow2_half [OF assms(4)] pow2_pos [of e]
    by (metis mult_left_mono less_eq_real_def times_divide_eq_right mult.right_neutral)
  have "\<bar>y\<bar> < pow2 (emax + 1)"
  proof (cases "emin \<le> \<lfloor>log 2 \<bar>x\<bar>\<rfloor>")
    case True
    then have e: "e = \<lfloor>log 2 \<bar>x\<bar>\<rfloor>" by (simp add: e_def)
    have "pow2 e \<le> \<bar>x\<bar>" unfolding e by (rule pow2_floor_log [OF False])
    then have "\<bar>y\<bar> \<le> \<bar>x\<bar> + \<bar>x\<bar> / 2" using near half by linarith
    also have "\<dots> < 2 * pow2 m" using assms(1) pow2_pos [of m] by linarith
    also have "\<dots> = pow2 (m + 1)" using pow2_add [of m 1] by (simp add: pow2_def [of 1])
    also have "\<dots> \<le> pow2 (emax + 1)" using assms(2) by (intro pow2_mono) simp
    finally show ?thesis .
  next
    case F: False
    then have e: "e = emin" by (simp add: e_def)
    have "\<bar>x\<bar> < pow2 emin" using F False by (intro floor_log_less) simp_all
    then have "\<bar>y\<bar> < pow2 emin + pow2 emin / 2" using near half unfolding e by linarith
    also have "\<dots> < 2 * pow2 emin" using pow2_pos [of emin] by linarith
    also have "\<dots> = pow2 (emin + 1)" using pow2_add [of emin 1] by (simp add: pow2_def [of 1])
    also have "\<dots> \<le> pow2 (emax + 1)" using assms(3) by (intro pow2_mono) simp
    finally show ?thesis .
  qed
  then have "round_at p emax e x = Finite y"
    by (simp add: round_at_def Let_def y_def)
  then show ?thesis using False by (simp add: round_to_def e_def)
qed

lemma round64_finite:
  assumes "\<bar>x\<bar> \<le> 2 ^ 1023"
  shows "\<exists>y. round64 x = Finite y"
  unfolding round64_def using assms
  by (intro round_to_finite [where m = 1023]) (simp_all add: pow2_def)

lemma round32_finite:
  assumes "\<bar>x\<bar> \<le> 2 ^ 127"
  shows "\<exists>y. round32 x = Finite y"
  unfolding round32_def using assms
  by (intro round_to_finite [where m = 127]) (simp_all add: pow2_def)

text \<open>Roundings that the example cameras need.\<close>

lemma r64_1: "round64 1 = Finite 1"
  by (rule round64_exact [where e = 0]) (simp_all add: pow2_def)

lemma r64_2: "round64 2 = Finite 2"
  by (rule round64_exact [where e = 1]) (simp_all add: pow2_def)

lemma r64_3: "round64 3 = Finite 3"
  by (rule round64_exact [where e = 1]) (simp_all add: pow2_def)

lemma r64_9: "round64 9 = Finite 9"
  by (rule round64_exact [where e = 3]) (simp_all add: pow2_def)

lemma r64_10: "round64 10 = Finite 10"
  by (rule round64_exact [where e = 3]) (simp_all add: pow2_def)

lemma r64_100: "round64 100 = Finite 100"
  by (rule round64_exact [where e = 6]) (simp_all add: pow2_def)

lemma r64_10000: "round64 10000 = Finite 10000"
  by (rule round64_exact [where e = 13]) (simp_all add: pow2_def)

lemma r32_1: "round32 1 = Finite 1"
  by (rule round32_exact [where e = 0]) (simp_all add: pow2_def)

lemma r32_9: "round32 9 = Finite 9"
  by (rule round32_exact [where e = 3]) (simp_all add: pow2_def)

lemma r32_10: "round32 10 = Finite 10"
  by (rule round32_exact [where e = 3]) (simp_all add: pow2_def)

lemma r32_100: "round32 100 = Finite 100"
  by (rule round32_exact [where e = 6]) (simp_all add: pow2_def)

lemma r64_tenth: "round64 (1 / 10) = Finite (3602879701896397 / 2 ^ 55)"
  unfolding round64_def
  by (subst round_to_eval [where e = "- 4"])
     (simp_all add: pow2_def round_at_def rne_def Let_def)

lemma r64_ten_tenths: "round64 (18014398509481985 / 18014398509481984) = Finite 1"
  unfolding round64_def
  by (subst round_to_eval [where e = 0])
     (simp_all add: pow2_def round_at_def rne_def Let_def)

lemma r64_hundredth: "round64 (1 / 100) = Finite (5764607523034235 / 2 ^ 59)"
  unfolding round64_def
  by (subst round_to_eval [where e = "- 7"])
     (simp_all add: pow2_def round_at_def rne_def Let_def)

lemma r64_hundred_hundredths: "round64 (144115188075855875 / 144115188075855872) = Finite 1"
  unfolding round64_def
  by (subst round_to_eval [where e = 0])
     (simp_all add: pow2_def round_at_def rne_def Let_def)

lemma sqrt_100: "sqrt 100 = 10"
  by (rule real_sqrt_unique) simp_all

lemma sqrt_10000: "sqrt 10000 = 100"
  by (rule real_sqrt_unique) simp_all

lemma r32_2: "round32 2 = Finite 2"
  by (rule round32_exact [where e = 1]) (simp_all add: pow2_def)

lemma r32_3: "round32 3 = Finite 3"
  by (rule round32_exact [where e = 1]) (simp_all add: pow2_def)

lemma r64_4: "round64 4 = Finite 4"
  by (rule round64_exact [where e = 2]) (simp_all add: pow2_def)

lemma r64_8: "round64 8 = Finite 8"
  by (rule round64_exact [where e = 3]) (simp_all add: pow2_def)

lemma r64_half: "round64 (1 / 2) = Finite (1 / 2)"
  by (rule round64_exact [where e = "- 1"]) (simp_all add: pow2_def)

lemma sqrt_4: "sqrt 4 = 2"
  by (rule real_sqrt_unique) simp_all

lemmas evals = r64_1 r64_2 r64_3 r64_9 r64_10 r64_100 r64_10000 r32_1 r32_9 r32_10 r32_100
  r64_tenth r64_ten_tenths r64_hundredth r64_hundred_hundredths sqrt_100 sqrt_10000
  round_zero round64_minus round32_minus

section \<open>Orienting the camera\<close>

lemma Camera_new_default:
  "Camera_new (FVec3 (Finite 10) (Finite 0) (Finite 0)) (FVec3 (Finite 0) (Finite 0) (Finite 0))
     (FVec3 (Finite 0) (Finite 1) (Finite 0)) =
     \<lparr>position = FVec3 (Finite 10) (Finite 0) (Finite 0),
      forward = FVec3 (Finite (- 1)) (Finite 0) (Finite 0),
      up = FVec3 (Finite 0) (Finite 1) (Finite 0),
      right = FVec3 (Finite 0) (Finite 0) (Finite (- 1))\<rparr>"
  by (simp add: Camera_new_def fvec3_subtract_def fvec3_cross_def fvec3_normalize_def
      num_sub_def Let_def evals)

lemma lookAt_default:
  "mat4_lookAt (FVec3 (Finite 10) (Finite 0) (Finite 0)) (FVec3 (Finite 9) (Finite 0) (Finite 0))
     (FVec3 (Finite 0) (Finite 1) (Finite 0)) =
     [Finite 0, Finite 0, Finite 1, Finite 0,
      Finite 0, Finite 1, Finite 0, Finite 0,
      Finite (- 1), Finite 0, Finite 0, Finite 0,
      Finite 0, Finite 0, Finite (- 10), Finite 1]"
  by (simp add: mat4_lookAt_def lookAt_unit_def glMatrix_EPSILON_def num_sub_def Let_def evals)

lemma default_camera_eq:
  "default_camera =
     \<lparr>position = FVec3 (Finite 10) (Finite 0) (Finite 0),
      forward = FVec3 (Finite (- 1)) (Finite 0) (Finite 0),
      up = FVec3 (Finite 0) (Finite 1) (Finite 0),
      right = FVec3 (Finite 0) (Finite 0) (Finite (- 1))\<rparr>"
  by (simp add: default_camera_def fvec3_fromValues_def evals Camera_new_default)

lemma r32_p70: "round32 (2 ^ 70) = Finite (2 ^ 70)"
  by (rule round32_exact [where e = 70]) (simp_all add: pow2_def)

lemma r64_p70: "round64 (2 ^ 70) = Finite (2 ^ 70)"
  by (rule round64_exact [where e = 70]) (simp_all add: pow2_def)

lemma r64_p140: "round64 (2 ^ 140) = Finite (2 ^ 140)"
  by (rule round64_exact [where e = 140]) (simp_all add: pow2_def)

lemma r64_m70: "round64 (1 / 2 ^ 70) = Finite (1 / 2 ^ 70)"
  by (rule round64_exact [where e = "- 70"]) (simp_all add: pow2_def)

lemma r32_p140: "round32 (2 ^ 140) = PosInf"
  unfolding round32_def
  by (subst round_to_eval [where e = 140])
     (simp_all add: pow2_def round_at_def rne_def Let_def)

lemma sqrt_p140: "sqrt (2 ^ 140) = 2 ^ 70"
  by (rule real_sqrt_unique) simp_all

lemmas p70_evals = r32_p70 [simplified] r64_p70 [simplified] r64_p140 [simplified]
  r64_m70 [simplified] r32_p140 [simplified] sqrt_p140 [simplified]

lemma far_camera_eq:
  "far_camera =
     \<lparr>position = FVec3 (Finite 0) (Finite 0) (Finite 0),
      forward = FVec3 (Finite 1) (Finite 0) (Finite 0),
      up = FVec3 (Finite 0) NaN (Finite 0),
      right = FVec3 (Finite 0) (Finite 0) (Finite 1)\<rparr>"
  by (simp add: far_camera_def fvec3_fromValues_def Camera_new_def fvec3_subtract_def
      fvec3_cross_def fvec3_normalize_def num_sub_def Let_def evals p70_evals signed_inf_def)

lemma r32_p27: "round32 134217728 = Finite 134217728"
  by (rule round32_exact [where e = 27]) (simp_all add: pow2_def)

lemma r64_p27: "round64 134217728 = Finite 134217728"
  by (rule round64_exact [where e = 27]) (simp_all add: pow2_def)

lemma r64_p54: "round64 18014398509481984 = Finite 18014398509481984"
  by (rule round64_exact [where e = 54]) (simp_all add: pow2_def)

lemma r32_p54: "round32 18014398509481984 = Finite 18014398509481984"
  by (rule round32_exact [where e = 54]) (simp_all add: pow2_def)

lemma r64_p108: "round64 324518553658426726783156020576256 = Finite 324518553658426726783156020576256"
  by (rule round64_exact [where e = 108]) (simp_all add: pow2_def)

lemma r64_m27: "round64 (1 / 134217728) = Finite (1 / 134217728)"
  by (rule round64_exact [where e = "- 27"]) (simp_all add: pow2_def)

lemma r64_m54: "round64 (1 / 18014398509481984) = Finite (1 / 18014398509481984)"
  by (rule round64_exact [where e = "- 54"]) (simp_all add: pow2_def)

lemma r64_p27_less_1: "round64 134217727 = Finite 134217727"
  by (rule round64_exact [where e = 26]) (simp_all add: pow2_def)

lemma r32_p27_less_1: "round32 134217727 = Finite 134217728"
  unfolding round32_def
  by (subst round_to_eval [where e = 26])
     (simp_all add: pow2_def round_at_def rne_def Let_def)

lemma sqrt_p54: "sqrt 18014398509481984 = 134217728"
  by (rule real_sqrt_unique) simp_all

lemma sqrt_p108: "sqrt 324518553658426726783156020576256 = 18014398509481984"
  by (rule real_sqrt_unique) simp_all

lemmas p27_evals = r32_p27 r64_p27 r64_p54 r32_p54 r64_p108 r64_m27 r64_m54 r64_p27_less_1
  r32_p27_less_1 sqrt_p54 sqrt_p108

lemma distant_camera_eq:
  "distant_camera =
     \<lparr>position = FVec3 (Finite (2 ^ 27)) (Finite 0) (Finite 0),
      forward = FVec3 (Finite (- 1)) (Finite 0) (Finite 0),
      up = FVec3 (Finite 0) (Finite 1) (Finite 0),
      right = FVec3 (Finite 0) (Finite 0) (Finite (- 1))\<rparr>"
  by (simp add: distant_camera_def fvec3_fromValues_def Camera_new_def fvec3_subtract_def
      fvec3_cross_def fvec3_normalize_def num_sub_def Let_def evals p27_evals)

lemma distant_view: "getViewMatrix distant_camera = mat4_create"
  by (simp add: distant_camera_eq getViewMatrix_def fvec3_add_def mat4_lookAt_def
      glMatrix_EPSILON_def num_sub_def Let_def evals p27_evals)

text \<open>
  The constructor does not always leave \<open>up\<close> as the normalised cross product of the
  \<open>right\<close> and \<open>forward\<close> it leaves. For the camera at the origin that looks at
  \<open>[2^70, 0, 0]\<close>, the position differs from the target and \<open>[0, 1, 0]\<close> is not
  parallel to the viewing direction, but the cross product of the two un-normalised
  vectors has the entry \<open>2^140\<close>, which a \<open>Float32Array\<close> stores as \<open>Infinity\<close>,
  and normalising leaves \<open>up\<close> as \<open>[0, NaN, 0]\<close> where the normalised
  \<open>right \<times> forward\<close> is \<open>[0, 1, 0]\<close>. For the camera at \<open>[2^27, 0, 0]\<close> that
  looks at the origin, \<open>position + forward\<close> is stored as \<open>position\<close> again, and
  \<open>getViewMatrix\<close> gives the identity matrix.
\<close>

theorem Camera_new_overflows:
  "position far_camera \<noteq> fvec3_fromValues (Finite (2 ^ 70)) (Finite 0) (Finite 0)
   \<and> forward far_camera = FVec3 (Finite 1) (Finite 0) (Finite 0)
   \<and> right far_camera = FVec3 (Finite 0) (Finite 0) (Finite 1)
   \<and> up far_camera = FVec3 (Finite 0) NaN (Finite 0)
   \<and> fvec3_normalize (fvec3_cross (right far_camera) (forward far_camera)) =
       FVec3 (Finite 0) (Finite 1) (Finite 0)
   \<and> position distant_camera = FVec3 (Finite (2 ^ 27)) (Finite 0) (Finite 0)
   \<and> forward distant_camera = FVec3 (Finite (- 1)) (Finite 0) (Finite 0)
   \<and> up distant_camera = FVec3 (Finite 0) (Finite 1) (Finite 0)
   \<and> fvec3_add (position distant_camera) (forward distant_camera) = position distant_camera
   \<and> getViewMatrix distant_camera = mat4_create"
proof (intro conjI)
  show "fvec3_add (position distant_camera) (forward distant_camera) = position distant_camera"
    by (simp add: distant_camera_eq fvec3_add_def evals p27_evals)
  show "getViewMatrix distant_camera = mat4_create"
    by (rule distant_view)
  show "fvec3_normalize (fvec3_cross (right far_camera) (forward far_camera)) =
       FVec3 (Finite 0) (Finite 1) (Finite 0)"
    by (simp add: far_camera_eq fvec3_cross_def fvec3_normalize_def num_sub_def Let_def evals)
  show "position far_camera \<noteq> fvec3_fromValues (Finite (2 ^ 70)) (Finite 0) (Finite 0)"
    by (simp add: far_camera_eq fvec3_fromValues_def p70_evals evals)
qed (simp_all add: far_camera_eq distant_camera_eq)

text \<open>
  Claim C1, amended. In the arithmetic of the code (doubles, stored into
  \<open>Float32Array\<close>s) the constructor keeps the position and sets \<open>forward\<close> to the
  normalised \<open>lookAt - position\<close>, \<open>right\<close> to the normalised
  \<open>(lookAt - position) \<times> up\<close> and \<open>up\<close> to the normalised
  \<open>((lookAt - position) \<times> up) \<times> (lookAt - position)\<close>: both cross products are
  taken and stored before anything is normalised. \<open>getViewMatrix\<close> is \<open>mat4.lookAt\<close>
  of the position, the stored sum of position and \<open>forward\<close>, and \<open>up\<close>. For
  position \<open>[10, 0, 0]\<close>, target \<open>[0, 0, 0]\<close> and up \<open>[0, 1, 0]\<close> this gives
  forward \<open>[-1, 0, 0]\<close>, right \<open>[0, 0, -1]\<close>, up \<open>[0, 1, 0]\<close>, where right and up are
  also the normalised \<open>forward \<times> up\<close> and \<open>right \<times> forward\<close> of the vectors the
  camera ends with, and a view matrix that is \<open>mat4.lookAt\<close> of eye \<open>[10, 0, 0]\<close>,
  center \<open>[0, 0, 0]\<close> and up \<open>[0, 1, 0]\<close>, with the entries listed.
\<close>

theorem Camera_new_orients:
  "(let c = Camera_new pos lookAt upv;
        forward0 = fvec3_subtract lookAt pos;
        right0 = fvec3_cross forward0 upv in
      position c = pos
    \<and> forward c = fvec3_normalize forward0
    \<and> right c = fvec3_normalize right0
    \<and> up c = fvec3_normalize (fvec3_cross right0 forward0)
    \<and> getViewMatrix c = mat4_lookAt (position c) (fvec3_add (position c) (forward c)) (up c))
   \<and> forward default_camera = FVec3 (Finite (- 1)) (Finite 0) (Finite 0)
   \<and> right default_camera = FVec3 (Finite 0) (Finite 0) (Finite (- 1))
   \<and> up default_camera = FVec3 (Finite 0) (Finite 1) (Finite 0)
   \<and> right default_camera =
       fvec3_normalize (fvec3_cross (forward default_camera)
         (fvec3_fromValues (Finite 0) (Finite 1) (Finite 0)))
   \<and> up default_camera =
       fvec3_normalize (fvec3_cross (right default_camera) (forward default_camera))
   \<and> getViewMatrix default_camera =
       mat4_lookAt (fvec3_fromValues (Finite 10) (Finite 0) (Finite 0))
         (fvec3_fromValues (Finite 0) (Finite 0) (Finite 0))
         (fvec3_fromValues (Finite 0) (Finite 1) (Finite 0))
   \<and> getViewMatrix default_camera =
       [Finite 0, Finite 0, Finite 1, Finite 0,
        Finite 0, Finite 1, Finite 0, Finite 0,
        Finite (- 1), Finite 0, Finite 0, Finite 0,
        Finite 0, Finite 0, Finite (- 10), Finite 1]"
proof (intro conjI)
  show "let c = Camera_new pos lookAt upv;
        forward0 = fvec3_subtract lookAt pos;
        right0 = fvec3_cross forward0 upv in
      position c = pos
    \<and> forward c = fvec3_normalize forward0
    \<and> right c = fvec3_normalize right0
    \<and> up c = fvec3_normalize (fvec3_cross right0 forward0)
    \<and> getViewMatrix c = mat4_lookAt (position c) (fvec3_add (position c) (forward c)) (up c)"
    by (simp add: Camera_new_def getViewMatrix_def Let_def)
  have V: "getViewMatrix default_camera =
       [Finite 0, Finite 0, Finite 1, Finite 0,
        Finite 0, Finite 1, Finite 0, Finite 0,
        Finite (- 1), Finite 0, Finite 0, Finite 0,
        Finite 0, Finite 0, Finite (- 10), Finite 1]"
    by (simp add: default_camera_eq getViewMatrix_def fvec3_add_def evals lookAt_default)
  show "getViewMatrix default_camera =
       [Finite 0, Finite 0, Finite 1, Finite 0,
        Finite 0, Finite 1, Finite 0, Finite 0,
        Finite (- 1), Finite 0, Finite 0, Finite 0,
        Finite 0, Finite 0, Finite (- 10), Finite 1]"
    by (rule V)
  show "getViewMatrix default_camera =
       mat4_lookAt (fvec3_fromValues (Finite 10) (Finite 0) (Finite 0))
         (fvec3_fromValues (Finite 0) (Finite 0) (Finite 0))
         (fvec3_fromValues (Finite 0) (Finite 1) (Finite 0))"
    unfolding V
    by (simp add: fvec3_fromValues_def mat4_lookAt_def lookAt_unit_def glMatrix_EPSILON_def
        num_sub_def Let_def evals)
  show "right default_camera =
       fvec3_normalize (fvec3_cross (forward default_camera)
         (fvec3_fromValues (Finite 0) (Finite 1) (Finite 0)))"
    by (simp add: default_camera_eq fvec3_fromValues_def fvec3_cross_def fvec3_normalize_def
        num_sub_def Let_def evals)
  show "up default_camera =
       fvec3_normalize (fvec3_cross (right default_camera) (forward default_camera))"
    by (simp add: default_camera_eq fvec3_cross_def fvec3_normalize_def num_sub_def Let_def evals)
qed (simp_all add: default_camera_eq)

section \<open>Rotating the camera\<close>

lemma r64_sqrt2: "round64 (sqrt 2) = Finite (6369051672525773 / 2 ^ 52)"
proof -
  have b: "pow2 0 \<le> \<bar>sqrt 2\<bar>" "\<bar>sqrt 2\<bar> < pow2 (0 + 1)"
    by (simp_all add: pow2_def real_less_lsqrt)
  have r: "rne (sqrt 2 / (1 / 2 ^ 52)) = 6369051672525773"
    by (rule round_at_sqrt) (simp_all add: power2_eq_square)
  show ?thesis
    unfolding round64_def round_to_eval [OF b]
    using r by (simp add: round_at_def pow2_def Let_def)
qed

lemma r64_sqrt8: "round64 (sqrt 8) = Finite (6369051672525773 / 2 ^ 51)"
proof -
  have b: "pow2 1 \<le> \<bar>sqrt 8\<bar>" "\<bar>sqrt 8\<bar> < pow2 (1 + 1)"
    by (simp_all add: pow2_def real_less_lsqrt real_le_rsqrt)
  have r: "rne (sqrt 8 / (1 / 2 ^ 51)) = 6369051672525773"
    by (rule round_at_sqrt) (simp_all add: power2_eq_square)
  show ?thesis
    unfolding round64_def round_to_eval [OF b]
    using r by (simp add: round_at_def pow2_def Let_def)
qed

lemma r64_inv_sqrt2: "round64 (4503599627370496 / 6369051672525773) = Finite (1592262918131443 / 2251799813685248)"
  unfolding round64_def
  by (subst round_to_eval [where e = "- 1"])
     (simp_all add: pow2_def round_at_def rne_def Let_def)

lemma r64_inv_sqrt8: "round64 (2251799813685248 / 6369051672525773) = Finite (1592262918131443 / 4503599627370496)"
  unfolding round64_def
  by (subst round_to_eval [where e = "- 2"])
     (simp_all add: pow2_def round_at_def rne_def Let_def)

lemma r64_f64: "round64 (1592262918131443 / 2251799813685248) = Finite (1592262918131443 / 2251799813685248)"
  by (rule round64_exact [where e = "- 1"]) (simp_all add: pow2_def)

lemma r32_f64: "round32 (1592262918131443 / 2251799813685248) = Finite (11863283 / 16777216)"
  unfolding round32_def
  by (subst round_to_eval [where e = "- 1"])
     (simp_all add: pow2_def round_at_def rne_def Let_def)

lemma tilted_camera_eq:
  "tilted_camera =
     \<lparr>position = FVec3 (Finite 0) (Finite 0) (Finite 0),
      forward = FVec3 (Finite 0) (Finite (11863283 / 2 ^ 24)) (Finite (11863283 / 2 ^ 24)),
      up = FVec3 (Finite 0) (Finite (- (11863283 / 2 ^ 24))) (Finite (11863283 / 2 ^ 24)),
      right = FVec3 (Finite 1) (Finite 0) (Finite 0)\<rparr>"
  by (simp add: tilted_camera_def fvec3_fromValues_def Camera_new_def fvec3_subtract_def
      fvec3_cross_def fvec3_normalize_def num_sub_def Let_def evals r32_2 r64_4 r64_8 r64_half sqrt_4
      r64_sqrt2 [simplified] r64_sqrt8 [simplified] r64_inv_sqrt2 r64_inv_sqrt8 r64_f64 r32_f64)

lemma r64_cv: "round64 (4967757600021511 / 81129638414606681695789005144064) = Finite (4967757600021511 / 81129638414606681695789005144064)"
  by (rule round64_exact [where e = "- 54"]) (simp_all add: pow2_def)

lemma r64_one_minus_cv: "round64 (81129638414606676728031405122553 / 81129638414606681695789005144064) = Finite (9007199254740991 / 9007199254740992)"
  unfolding round64_def
  by (subst round_to_eval [where e = "- 1"])
     (simp_all add: pow2_def round_at_def rne_def Let_def)

lemma r64_t: "round64 (9007199254740991 / 9007199254740992) = Finite (9007199254740991 / 9007199254740992)"
  by (rule round64_exact [where e = "- 1"]) (simp_all add: pow2_def)

lemma r64_t_plus_cv: "round64 (81129638414606677656347350424583 / 81129638414606681695789005144064) = Finite 1"
  unfolding round64_def
  by (subst round_to_eval [where e = "- 1"])
     (simp_all add: pow2_def round_at_def rne_def Let_def)

lemma r32_cv: "round32 (4967757600021511 / 81129638414606681695789005144064) = Finite (4626585 / 75557863725914323419136)"
  unfolding round32_def
  by (subst round_to_eval [where e = "- 54"])
     (simp_all add: pow2_def round_at_def rne_def Let_def)

lemma r64_c32_f: "round64 (54886487178555 / 1267650600228229401496703205376) = Finite (54886487178555 / 1267650600228229401496703205376)"
  by (rule round64_exact [where e = "- 55"]) (simp_all add: pow2_def)

lemma r64_f_minus_p: "round64 (896364320255955997588250804933 / 1267650600228229401496703205376) = Finite (11863283 / 16777216)"
  unfolding round64_def
  by (subst round_to_eval [where e = "- 1"])
     (simp_all add: pow2_def round_at_def rne_def Let_def)

lemma r64_f_plus_p: "round64 (896364320255956107361225162043 / 1267650600228229401496703205376) = Finite (11863283 / 16777216)"
  unfolding round64_def
  by (subst round_to_eval [where e = "- 1"])
     (simp_all add: pow2_def round_at_def rne_def Let_def)

lemma r64_f: "round64 (11863283 / 16777216) = Finite (11863283 / 16777216)"
  by (rule round64_exact [where e = "- 1"]) (simp_all add: pow2_def)

lemma r32_f: "round32 (11863283 / 16777216) = Finite (11863283 / 16777216)"
  by (rule round32_exact [where e = "- 1"]) (simp_all add: pow2_def)

lemma r64_ff: "round64 (140737483538089 / 281474976710656) = Finite (140737483538089 / 281474976710656)"
  by (rule round64_exact [where e = "- 2"]) (simp_all add: pow2_def)

lemma rotation_eq:
  assumes "Math_sin js half_pi = Finite 1"
    and "Math_cos js half_pi = Finite (4967757600021511 / 2 ^ 106)"
  shows "rotation_of js half_pi (fvec3_fromValues (Finite 1) (Finite 0) (Finite 0)) =
     [Finite 1, Finite 0, Finite 0, Finite 0,
      Finite 0, Finite (4626585 / 2 ^ 76), Finite 1, Finite 0,
      Finite 0, Finite (- 1), Finite (4626585 / 2 ^ 76), Finite 0,
      Finite 0, Finite 0, Finite 0, Finite 1]"
  using assms
  by (simp add: rotation_of_def mat4_rotate_def mat4_create_def fvec3_fromValues_def dot3_def
      glMatrix_EPSILON_def num_sub_def Let_def evals r64_cv r64_one_minus_cv r64_t r64_t_plus_cv
      r32_cv)

lemma transform_eq:
  "fvec3_transformMat4 (FVec3 (Finite 0) (Finite (11863283 / 2 ^ 24)) (Finite (11863283 / 2 ^ 24)))
     [Finite 1, Finite 0, Finite 0, Finite 0,
      Finite 0, Finite (4626585 / 2 ^ 76), Finite 1, Finite 0,
      Finite 0, Finite (- 1), Finite (4626585 / 2 ^ 76), Finite 0,
      Finite 0, Finite 0, Finite 0, Finite 1] =
   FVec3 (Finite 0) (Finite (- (11863283 / 2 ^ 24))) (Finite (11863283 / 2 ^ 24))"
  by (simp add: fvec3_transformMat4_def Let_def evals r64_c32_f r64_f_minus_p r64_f_plus_p
      r64_f r32_f)

lemma realign_parallel:
  "realign \<lparr>position = p,
      forward = FVec3 (Finite 0) (Finite (- (11863283 / 2 ^ 24))) (Finite (11863283 / 2 ^ 24)),
      up = FVec3 (Finite 0) (Finite (- (11863283 / 2 ^ 24))) (Finite (11863283 / 2 ^ 24)),
      right = r\<rparr> =
    \<lparr>position = p,
      forward = fvec3_normalize
        (FVec3 (Finite 0) (Finite (- (11863283 / 2 ^ 24))) (Finite (11863283 / 2 ^ 24))),
      up = FVec3 (Finite 0) (Finite 0) (Finite 0),
      right = FVec3 (Finite 0) (Finite 0) (Finite 0)\<rparr>"
  by (simp add: realign_def fvec3_cross_def fvec3_normalize_def [of "FVec3 (Finite 0) (Finite 0) (Finite 0)"]
      num_sub_def Let_def evals r64_ff)

text \<open>
  Claim C2, at the input where the code breaks it. The camera constructed at the origin
  with target \<open>[0, 1, 1]\<close> and up \<open>[0, -1, 1]\<close> has forward \<open>[0, f, f]\<close>, right
  \<open>[1, 0, 0]\<close> and up \<open>[0, -f, f]\<close>, where \<open>f = 11863283 / 2^24\<close> is the single
  nearest to \<open>1 / sqrt 2\<close>: the three are orthogonal and of unit length up to the
  rounding of \<open>f\<close>. On an engine where \<open>Math.sin(Math.PI / 2)\<close> is \<open>1\<close> and
  \<open>Math.cos(Math.PI / 2)\<close> is \<open>6.123233995736766e-17\<close>, \<open>rotateUp(Math.PI / 2)\<close>
  turns forward into \<open>[0, -f, f]\<close>, exactly the up vector, so both cross products of
  \<open>realign\<close> are zero and the call leaves right and up as \<open>[0, 0, 0]\<close>.
\<close>

theorem rotateUp_collapses:
  "forward tilted_camera = FVec3 (Finite 0) (Finite (11863283 / 2 ^ 24)) (Finite (11863283 / 2 ^ 24))
   \<and> right tilted_camera = FVec3 (Finite 1) (Finite 0) (Finite 0)
   \<and> up tilted_camera = FVec3 (Finite 0) (Finite (- (11863283 / 2 ^ 24))) (Finite (11863283 / 2 ^ 24))
   \<and> (Math_sin js half_pi = Finite 1
      \<and> Math_cos js half_pi = Finite (4967757600021511 / 2 ^ 106)
      \<longrightarrow> right (rotateUp js tilted_camera half_pi) = FVec3 (Finite 0) (Finite 0) (Finite 0)
        \<and> up (rotateUp js tilted_camera half_pi) = FVec3 (Finite 0) (Finite 0) (Finite 0))"
proof (intro conjI impI)
  assume h: "Math_sin js half_pi = Finite 1
      \<and> Math_cos js half_pi = Finite (4967757600021511 / 2 ^ 106)"
  then have s: "Math_sin js half_pi = Finite 1"
    and c: "Math_cos js half_pi = Finite (4967757600021511 / 2 ^ 106)"
    by simp_all
  have R: "rotateUp js tilted_camera half_pi =
    \<lparr>position = FVec3 (Finite 0) (Finite 0) (Finite 0),
      forward = fvec3_normalize
        (FVec3 (Finite 0) (Finite (- (11863283 / 2 ^ 24))) (Finite (11863283 / 2 ^ 24))),
      up = FVec3 (Finite 0) (Finite 0) (Finite 0),
      right = FVec3 (Finite 0) (Finite 0) (Finite 0)\<rparr>"
    unfolding rotateUp_def Let_def rotation_eq [OF s c] tilted_camera_eq
    by (simp add: transform_eq [simplified] realign_parallel [simplified])
  show "right (rotateUp js tilted_camera half_pi) = FVec3 (Finite 0) (Finite 0) (Finite 0)"
    by (simp add: R)
  show "up (rotateUp js tilted_camera half_pi) = FVec3 (Finite 0) (Finite 0) (Finite 0)"
    by (simp add: R)
qed (simp_all add: tilted_camera_eq)

theorem rotateUp_collapses_witness:
  "Math_sin example_engine half_pi = Finite 1
   \<and> Math_cos example_engine half_pi = Finite (4967757600021511 / 2 ^ 106)
   \<and> right (rotateUp example_engine tilted_camera half_pi) =
       FVec3 (Finite 0) (Finite 0) (Finite 0)
   \<and> up (rotateUp example_engine tilted_camera half_pi) =
       FVec3 (Finite 0) (Finite 0) (Finite 0)"
proof -
  have h: "Math_sin example_engine half_pi = Finite 1
      \<and> Math_cos example_engine half_pi = Finite (4967757600021511 / 2 ^ 106)"
    by (simp add: example_engine_def)
  have "right (rotateUp example_engine tilted_camera half_pi) =
       FVec3 (Finite 0) (Finite 0) (Finite 0)
   \<and> up (rotateUp example_engine tilted_camera half_pi) =
       FVec3 (Finite 0) (Finite 0) (Finite 0)"
    using rotateUp_collapses [of example_engine] h by blast
  with h show ?thesis by blast
qed

section \<open>Moving the camera\<close>

lemma unit_camera_eq:
  "unit_camera =
     \<lparr>position = FVec3 (Finite 1) (Finite 0) (Finite 0),
      forward = FVec3 (Finite 1) (Finite 0) (Finite 0),
      up = FVec3 (Finite 0) (Finite 1) (Finite 0),
      right = FVec3 (Finite 0) (Finite 0) (Finite 1)\<rparr>"
  by (simp add: unit_camera_def fvec3_fromValues_def Camera_new_def fvec3_subtract_def
      fvec3_cross_def fvec3_normalize_def num_sub_def Let_def evals r32_2)

lemma r64_e8: "round64 100000000 = Finite 100000000"
  by (rule round64_exact [where e = 26]) (simp_all add: pow2_def)

lemma r64_e8_1: "round64 100000001 = Finite 100000001"
  by (rule round64_exact [where e = 26]) (simp_all add: pow2_def)

lemma r32_e8_1: "round32 100000001 = Finite 100000000"
  unfolding round32_def
  by (subst round_to_eval [where e = 26])
     (simp_all add: pow2_def round_at_def rne_def Let_def)

lemma r64_p128: "round64 340282366920938463463374607431768211456 = Finite 340282366920938463463374607431768211456"
  by (rule round64_exact [where e = 128]) (simp_all add: pow2_def)

lemma r64_p128_1: "round64 340282366920938463463374607431768211457 = Finite 340282366920938463463374607431768211456"
  unfolding round64_def
  by (subst round_to_eval [where e = 128])
     (simp_all add: pow2_def round_at_def rne_def Let_def)

lemma r32_p128: "round32 340282366920938463463374607431768211456 = PosInf"
  unfolding round32_def
  by (subst round_to_eval [where e = 128])
     (simp_all add: pow2_def round_at_def rne_def Let_def)

lemma exact_move_back:
  assumes "exact_move p f d"
  shows "fround (num_add (fround (num_add p (num_mul f d))) (num_mul f (num_neg d))) = p"
proof -
  obtain x y s where p: "p = Finite x" and f: "f = Finite y" and d: "d = Finite s"
    using assms by (cases p; cases f; cases d) simp_all
  have e: "exact x" "round64 (y * s) = Finite (y * s)" "exact (x + y * s)"
    using assms by (simp_all add: p f d)
  have 1: "fround (num_add p (num_mul f d)) = Finite (x + y * s)"
    using e by (simp add: p f d exact_def)
  have 2: "num_mul f (num_neg d) = Finite (- (y * s))"
    using e(2) round64_minus [of "y * s"] by (simp add: f d)
  show ?thesis
    unfolding 1 2 using e(1) by (simp add: p exact_def)
qed

lemma move_error:
  assumes q: "fround (num_add (Finite x) (num_mul (Finite y) (Finite t))) = Finite q"
    and r: "fround (num_add (Finite q) (num_mul (Finite y) (num_neg (Finite t)))) = Finite r"
  shows "\<bar>r - x\<bar> \<le> (\<bar>x\<bar> + \<bar>y * t\<bar>) / 2 ^ 22 + 1 / 2 ^ 148"
proof -
  obtain a where a: "round64 (y * t) = Finite a"
    using q by (cases "round64 (y * t)") simp_all
  obtain s1 where s1: "round64 (x + a) = Finite s1"
    using q a by (cases "round64 (x + a)") simp_all
  have q': "round32 s1 = Finite q"
    using q a s1 by simp
  have na: "num_mul (Finite y) (num_neg (Finite t)) = Finite (- a)"
    using a round64_minus [of "y * t"] by simp
  obtain s2 where s2: "round64 (q - a) = Finite s2"
    using r na by (cases "round64 (q - a)") simp_all
  have r': "round32 s2 = Finite r"
    using r na s2 by simp
  define E0 where "E0 = \<bar>a - y * t\<bar>"
  define E1 where "E1 = \<bar>s1 - (x + a)\<bar>"
  define E2 where "E2 = \<bar>q - s1\<bar>"
  define E3 where "E3 = \<bar>s2 - (q - a)\<bar>"
  define E4 where "E4 = \<bar>r - s2\<bar>"
  define A where "A = \<bar>x\<bar>"
  define P where "P = \<bar>y * t\<bar>"
  define B where "B = \<bar>a\<bar>"
  define X where "X = \<bar>x + a\<bar>"
  define S1 where "S1 = \<bar>s1\<bar>"
  define Q where "Q = \<bar>q - a\<bar>"
  define S2 where "S2 = \<bar>s2\<bar>"
  define R where "R = \<bar>r - x\<bar>"
  have e0: "E0 \<le> P / 2 ^ 53 + 1 / 2 ^ 1075"
    unfolding E0_def P_def by (rule round64_err [OF a])
  have e1: "E1 \<le> X / 2 ^ 53 + 1 / 2 ^ 1075"
    unfolding E1_def X_def by (rule round64_err [OF s1])
  have e2: "E2 \<le> S1 / 2 ^ 24 + 1 / 2 ^ 150"
    unfolding E2_def S1_def by (rule round32_err [OF q'])
  have e3: "E3 \<le> Q / 2 ^ 53 + 1 / 2 ^ 1075"
    unfolding E3_def Q_def by (rule round64_err [OF s2])
  have e4: "E4 \<le> S2 / 2 ^ 24 + 1 / 2 ^ 150"
    unfolding E4_def S2_def by (rule round32_err [OF r'])
  have t0: "B \<le> P + E0" unfolding B_def P_def E0_def by linarith
  have t1: "X \<le> A + B" unfolding X_def A_def B_def by linarith
  have t2: "S1 \<le> X + E1" unfolding S1_def X_def E1_def by linarith
  have t3: "Q \<le> A + E1 + E2" unfolding Q_def A_def E1_def E2_def by linarith
  have t4: "S2 \<le> Q + E3" unfolding S2_def Q_def E3_def by linarith
  have t5: "R \<le> E1 + E2 + E3 + E4" unfolding R_def E1_def E2_def E3_def E4_def by linarith
  have p: "0 \<le> A" "0 \<le> P" unfolding A_def P_def by simp_all
  have "R \<le> A / 2 ^ 22 + P / 2 ^ 22 + 1 / 2 ^ 148"
    using e0 e1 e2 e3 e4 t0 t1 t2 t3 t4 t5 p by simp
  then show ?thesis
    unfolding R_def A_def P_def by (simp add: add_divide_distrib)
qed

lemma move_returns:
  assumes b: "\<bar>x\<bar> + \<bar>y * t\<bar> \<le> 2 ^ 126"
  shows "\<exists>q r. fround (num_add (Finite x) (num_mul (Finite y) (Finite t))) = Finite q
    \<and> fround (num_add (Finite q) (num_mul (Finite y) (num_neg (Finite t)))) = Finite r
    \<and> \<bar>r - x\<bar> \<le> (\<bar>x\<bar> + \<bar>y * t\<bar>) / 2 ^ 22 + 1 / 2 ^ 148"
proof -
  have big: "(2::real) ^ 127 \<le> 2 ^ 1023" by simp
  define A where "A = \<bar>x\<bar>"
  define P where "P = \<bar>y * t\<bar>"
  have p: "0 \<le> A" "0 \<le> P" "A + P \<le> 2 ^ 126" using b unfolding A_def P_def by simp_all
  have "P \<le> 2 ^ 127" using p by simp
  then have "\<bar>y * t\<bar> \<le> 2 ^ 1023" using big unfolding P_def by linarith
  then obtain a where a: "round64 (y * t) = Finite a"
    using round64_finite by blast
  define E0 where "E0 = \<bar>a - y * t\<bar>"
  define B where "B = \<bar>a\<bar>"
  define X where "X = \<bar>x + a\<bar>"
  have e0: "E0 \<le> P / 2 ^ 53 + 1 / 2 ^ 1075"
    unfolding E0_def P_def by (rule round64_err [OF a])
  have t0: "B \<le> P + E0" unfolding B_def P_def E0_def by linarith
  have t1: "X \<le> A + B" unfolding X_def A_def B_def by linarith
  have "X \<le> 2 ^ 127" using e0 t0 t1 p by simp
  then have "\<bar>x + a\<bar> \<le> 2 ^ 1023" using big unfolding X_def by linarith
  then obtain s1 where s1: "round64 (x + a) = Finite s1"
    using round64_finite by blast
  define E1 where "E1 = \<bar>s1 - (x + a)\<bar>"
  define S1 where "S1 = \<bar>s1\<bar>"
  have e1: "E1 \<le> X / 2 ^ 53 + 1 / 2 ^ 1075"
    unfolding E1_def X_def by (rule round64_err [OF s1])
  have t2: "S1 \<le> X + E1" unfolding S1_def X_def E1_def by linarith
  have "S1 \<le> 2 ^ 127" using e0 e1 t0 t1 t2 p by simp
  then obtain q where q': "round32 s1 = Finite q"
    using round32_finite unfolding S1_def by blast
  have q: "fround (num_add (Finite x) (num_mul (Finite y) (Finite t))) = Finite q"
    using a s1 q' by simp
  have na: "num_mul (Finite y) (num_neg (Finite t)) = Finite (- a)"
    using a round64_minus [of "y * t"] by simp
  define E2 where "E2 = \<bar>q - s1\<bar>"
  define Q where "Q = \<bar>q - a\<bar>"
  have e2: "E2 \<le> S1 / 2 ^ 24 + 1 / 2 ^ 150"
    unfolding E2_def S1_def by (rule round32_err [OF q'])
  have t3: "Q \<le> A + E1 + E2" unfolding Q_def A_def E1_def E2_def by linarith
  have "Q \<le> 2 ^ 127" using e0 e1 e2 t0 t1 t2 t3 p by simp
  then have "\<bar>q - a\<bar> \<le> 2 ^ 1023" using big unfolding Q_def by linarith
  then obtain s2 where s2: "round64 (q - a) = Finite s2"
    using round64_finite by blast
  define E3 where "E3 = \<bar>s2 - (q - a)\<bar>"
  define S2 where "S2 = \<bar>s2\<bar>"
  have e3: "E3 \<le> Q / 2 ^ 53 + 1 / 2 ^ 1075"
    unfolding E3_def Q_def by (rule round64_err [OF s2])
  have t4: "S2 \<le> Q + E3" unfolding S2_def Q_def E3_def by linarith
  have "S2 \<le> 2 ^ 127" using e0 e1 e2 e3 t0 t1 t2 t3 t4 p by simp
  then obtain r where r': "round32 s2 = Finite r"
    using round32_finite unfolding S2_def by blast
  have r: "fround (num_add (Finite q) (num_mul (Finite y) (num_neg (Finite t)))) = Finite r"
    using na s2 r' by simp
  show ?thesis
    using q r move_error [OF q r] by blast
qed

text \<open>
  A move forward and the same move back need not return the camera to where it was. The
  camera at \<open>[1, 0, 0]\<close> that looks along the first axis is moved by \<open>10^8\<close> to
  \<open>[10^8, 0, 0]\<close>, because \<open>10^8 + 1\<close> is not a single, and back to \<open>[0, 0, 0]\<close>:
  the error is as large as the position was. Moved by \<open>2^128\<close>, which is a double, its
  position is stored as \<open>[Infinity, 0, 0]\<close> and stays there when it is moved back.
\<close>

theorem moveForward_breaks_round_trip:
  "position unit_camera = FVec3 (Finite 1) (Finite 0) (Finite 0)
   \<and> position (moveForward unit_camera (Finite 100000000)) =
       FVec3 (Finite 100000000) (Finite 0) (Finite 0)
   \<and> position (moveForward (moveForward unit_camera (Finite 100000000))
        (num_neg (Finite 100000000))) = FVec3 (Finite 0) (Finite 0) (Finite 0)
   \<and> position (moveForward unit_camera (Finite (2 ^ 128))) =
       FVec3 PosInf (Finite 0) (Finite 0)
   \<and> position (moveForward (moveForward unit_camera (Finite (2 ^ 128)))
        (num_neg (Finite (2 ^ 128)))) = FVec3 PosInf (Finite 0) (Finite 0)"
  by (simp add: unit_camera_eq moveForward_def fvec3_scaleAndAdd_def evals r64_e8 r64_e8_1
      r32_e8_1 r64_p128 r64_p128_1 r32_p128)

text \<open>
  Claim C8, amended. \<open>moveForward\<close> changes the position only: forward, right and up
  are the same after \<open>moveForward(d)\<close> and after \<open>moveForward(d)\<close> followed by
  \<open>moveForward(-d)\<close>, for every \<open>d\<close>. The two moves return the position to exactly
  its original value whenever no step of the first move rounds: in each coordinate the
  position is a single, the product of the forward coordinate and \<open>d\<close> is a double, and
  their sum is a single. In general they return a coordinate \<open>k\<close> to a finite value
  within \<open>(|position| + |forward * d|) / 2^22 + 2^-148\<close> of its original value, provided
  that \<open>|position| + |forward * d|\<close> is at most \<open>2^126\<close> in that coordinate, which
  keeps every intermediate value in the range of single precision.
\<close>

theorem moveForward_round_trip:
  "forward (moveForward c d) = forward c
   \<and> right (moveForward c d) = right c
   \<and> up (moveForward c d) = up c
   \<and> forward (moveForward (moveForward c d) (num_neg d)) = forward c
   \<and> right (moveForward (moveForward c d) (num_neg d)) = right c
   \<and> up (moveForward (moveForward c d) (num_neg d)) = up c
   \<and> (exact_move (fx (position c)) (fx (forward c)) d
      \<and> exact_move (fy (position c)) (fy (forward c)) d
      \<and> exact_move (fz (position c)) (fz (forward c)) d
      \<longrightarrow> position (moveForward (moveForward c d) (num_neg d)) = position c)
   \<and> ((k = fx \<or> k = fy \<or> k = fz)
      \<and> k (position c) = Finite x \<and> k (forward c) = Finite y \<and> d = Finite t
      \<and> \<bar>x\<bar> + \<bar>y * t\<bar> \<le> 2 ^ 126
      \<longrightarrow> (\<exists>r. k (position (moveForward (moveForward c d) (num_neg d))) = Finite r
            \<and> \<bar>r - x\<bar> \<le> (\<bar>x\<bar> + \<bar>y * t\<bar>) / 2 ^ 22 + 1 / 2 ^ 148))"
proof (intro conjI impI)
  assume h: "exact_move (fx (position c)) (fx (forward c)) d
      \<and> exact_move (fy (position c)) (fy (forward c)) d
      \<and> exact_move (fz (position c)) (fz (forward c)) d"
  show "position (moveForward (moveForward c d) (num_neg d)) = position c"
    using h by (cases "position c") (simp add: moveForward_def fvec3_scaleAndAdd_def exact_move_back)
next
  assume h: "(k = fx \<or> k = fy \<or> k = fz)
      \<and> k (position c) = Finite x \<and> k (forward c) = Finite y \<and> d = Finite t
      \<and> \<bar>x\<bar> + \<bar>y * t\<bar> \<le> 2 ^ 126"
  then have k: "k = fx \<or> k = fy \<or> k = fz"
    and x: "k (position c) = Finite x" and y: "k (forward c) = Finite y" and d: "d = Finite t"
    and b: "\<bar>x\<bar> + \<bar>y * t\<bar> \<le> 2 ^ 126"
    by blast+
  obtain q r where
    q: "fround (num_add (Finite x) (num_mul (Finite y) (Finite t))) = Finite q"
    and r: "fround (num_add (Finite q) (num_mul (Finite y) (num_neg (Finite t)))) = Finite r"
    and e: "\<bar>r - x\<bar> \<le> (\<bar>x\<bar> + \<bar>y * t\<bar>) / 2 ^ 22 + 1 / 2 ^ 148"
    using move_returns [OF b] by blast
  have "k (position (moveForward (moveForward c d) (num_neg d))) = Finite r"
    using k x y q r unfolding d by (auto simp: moveForward_def fvec3_scaleAndAdd_def)
  then show "\<exists>r. k (position (moveForward (moveForward c d) (num_neg d))) = Finite r
            \<and> \<bar>r - x\<bar> \<le> (\<bar>x\<bar> + \<bar>y * t\<bar>) / 2 ^ 22 + 1 / 2 ^ 148"
    using e by blast
qed (simp_all add: moveForward_def)

theorem moveForward_round_trip_witness:
  "exact_move (fx (position unit_camera)) (fx (forward unit_camera)) (Finite 2)
   \<and> exact_move (fy (position unit_camera)) (fy (forward unit_camera)) (Finite 2)
   \<and> exact_move (fz (position unit_camera)) (fz (forward unit_camera)) (Finite 2)
   \<and> position (moveForward unit_camera (Finite 2)) = FVec3 (Finite 3) (Finite 0) (Finite 0)
   \<and> position (moveForward (moveForward unit_camera (Finite 2)) (num_neg (Finite 2))) =
       position unit_camera
   \<and> fx (position unit_camera) = Finite 1
   \<and> fx (forward unit_camera) = Finite 1
   \<and> \<bar>1\<bar> + \<bar>1 * 100000000\<bar> \<le> (2 ^ 126 :: real)
   \<and> (\<exists>r. fx (position (moveForward (moveForward unit_camera (Finite 100000000))
              (num_neg (Finite 100000000)))) = Finite r
          \<and> \<bar>r - 1\<bar> \<le> (\<bar>1\<bar> + \<bar>1 * 100000000\<bar>) / 2 ^ 22 + 1 / 2 ^ 148)"
proof -
  have h: "exact_move (fx (position unit_camera)) (fx (forward unit_camera)) (Finite 2)
     \<and> exact_move (fy (position unit_camera)) (fy (forward unit_camera)) (Finite 2)
     \<and> exact_move (fz (position unit_camera)) (fz (forward unit_camera)) (Finite 2)"
    by (simp add: unit_camera_eq exact_def evals r32_3)
  have m: "position (moveForward unit_camera (Finite 2)) = FVec3 (Finite 3) (Finite 0) (Finite 0)"
    by (simp add: unit_camera_eq moveForward_def fvec3_scaleAndAdd_def evals r32_3)
  have e: "position (moveForward (moveForward unit_camera (Finite 2)) (num_neg (Finite 2))) =
       position unit_camera"
    using moveForward_round_trip [of unit_camera "Finite 2"] h by blast
  have x: "fx (position unit_camera) = Finite 1" and y: "fx (forward unit_camera) = Finite 1"
    by (simp_all add: unit_camera_eq)
  have s: "\<bar>1\<bar> + \<bar>1 * 100000000\<bar> \<le> (2 ^ 126 :: real)"
    by simp
  have b: "\<exists>r. fx (position (moveForward (moveForward unit_camera (Finite 100000000))
              (num_neg (Finite 100000000)))) = Finite r
          \<and> \<bar>r - 1\<bar> \<le> (\<bar>1\<bar> + \<bar>1 * 100000000\<bar>) / 2 ^ 22 + 1 / 2 ^ 148"
    using moveForward_round_trip [of unit_camera "Finite 100000000" fx 1 1 100000000] x y s
    by blast
  from h m e x y s b show ?thesis by blast
qed

section \<open>Property enumeration order\<close>










lemma index_of_eq_Some: "index_of k = Some n \<longleftrightarrow> k = Idx n"
  by (cases k) simp_all












section \<open>Render\<close>




lemma draws_of_frame_setup: "filter is_draw (frame_setup s) = []"
  by (simp add: frame_setup_def)

lemma draws_of_light_uniforms: "filter is_draw (light_uniforms p) = []"
  by (simp add: light_uniforms_def)



lemma loaded_scene_eq:
  "loaded_scene = Load_success ((Scene_new example_gl)\<lparr>models := Val [], textures := Val []\<rparr>)"
  by (simp add: loaded_scene_def Load_def Scene_new_def example_gl_def)

lemma loaded_scene_maps:
  "models loaded_scene = Val []" "textures loaded_scene = Val []"
  by (simp_all add: loaded_scene_eq Load_success_def Scene_new_def Let_def)


lemma AddModel_registers:
  assumes "models s = Val ms" "textures s = Val tx"
  shows "AddModel s ident \<lparr>status = 200, responseText = ExporterJSON j\<rparr> True url (Some ()) =
     (s\<lparr>models := Val (obj_set ms ident
            (Model_new (position_array j) (index_array j) (normal_array j) (uv_array j))),
        textures := Val (obj_set tx ident (Texture url))\<rparr>,
      [CallbackInvoked], None)"
  using assms by (simp add: AddModel_def request_onload_def image_onload_def)

lemma tree_scene_eq:
  "tree_scene =
     loaded_scene\<lparr>models := Val [(Str ''tree'', Model_new (position_array triangle)
                      (index_array triangle) (normal_array triangle) (uv_array triangle))],
       textures := Val [(Str ''tree'', Texture ''./models/tree.png'')]\<rparr>"
  by (simp add: tree_scene_def AddModel_registers [OF loaded_scene_maps] obj_set_def)


section \<open>Drawing the meshes\<close>


lemma binds_before_draw:
  "mesh_calls p t m ! 14 = DrawElements TRIANGLES (nPoints m) UNSIGNED_SHORT 0
   \<and> take 14 (mesh_calls p t m) ! 0 = BindTexture TEXTURE_2D t
   \<and> take 14 (mesh_calls p t m) ! 2 = UniformMatrix4fv (mWorld (uniforms p)) False (world m)
   \<and> take 14 (mesh_calls p t m) ! 3 = BindBuffer ARRAY_BUFFER (Some (vbo m))
   \<and> take 14 (mesh_calls p t m) ! 6 = BindBuffer ARRAY_BUFFER (Some (tbo m))
   \<and> take 14 (mesh_calls p t m) ! 9 = BindBuffer ARRAY_BUFFER (Some (nbo m))
   \<and> take 14 (mesh_calls p t m) ! 13 = BindBuffer ELEMENT_ARRAY_BUFFER (Some (ibo m))"
  by (simp add: mesh_calls_def)




section \<open>Unloading the scene\<close>

lemma Unload_textures: "textures (fst (Unload s cb)) = textures s"
  by (cases "models s"; cases cb)
     (simp_all add: Unload_def Let_def unload_textures_def split: prod.splits)

lemma Unload_models_falsy: "\<not> truthy (models (fst (Unload s cb)))"
  by (cases "models s"; cases cb)
     (simp_all add: Unload_def Let_def unload_textures_def split: prod.splits)

lemma Unload_no_throw: "snd (snd (Unload s (Some ()))) = None"
  by (cases "models s")
     (simp_all add: Unload_def Let_def unload_textures_def split: prod.splits)

text \<open>
  Claim C4 fails on the code. \<open>Unload\<close> never changes the texture map: the block
  that would null it is guarded by \<open>this.models\<close>, which the block before has just
  nulled. After one and after two calls on the scene that holds the tree, the texture map
  still holds the tree's texture, while the model map is \<open>null\<close>. With a callback
  neither call throws; without one the call throws when it calls the callback.
\<close>

theorem Unload_never_clears_textures:
  "(\<forall>s cb. textures (fst (Unload s cb)) = textures s)
   \<and> textures tree_scene = Val [(Str ''tree'', Texture ''./models/tree.png'')]
   \<and> models (fst (Unload tree_scene (Some ()))) = Null
   \<and> textures (fst (Unload tree_scene (Some ()))) =
       Val [(Str ''tree'', Texture ''./models/tree.png'')]
   \<and> snd (snd (Unload tree_scene (Some ()))) = None
   \<and> textures (fst (Unload (fst (Unload tree_scene (Some ()))) (Some ()))) =
       Val [(Str ''tree'', Texture ''./models/tree.png'')]
   \<and> snd (snd (Unload (fst (Unload tree_scene (Some ()))) (Some ()))) = None
   \<and> snd (snd (Unload tree_scene None)) = Some TypeError"
proof -
  have t: "textures tree_scene = Val [(Str ''tree'', Texture ''./models/tree.png'')]"
    by (simp add: tree_scene_eq)
  have m: "models (fst (Unload tree_scene (Some ()))) = Null"
    by (simp add: Unload_def Let_def tree_scene_eq split: prod.splits)
  have e: "snd (snd (Unload tree_scene None)) = Some TypeError"
    by (simp add: Unload_def Let_def tree_scene_eq split: prod.splits)
  show ?thesis
    using t m e by (simp add: Unload_textures Unload_no_throw)
qed

section \<open>A response that is not JSON\<close>

text \<open>
  The failure as stated does not happen: for a response with status 200 whose text is not
  JSON, \<open>AddModel\<close> throws nothing and never calls the callback; the
  \<open>SyntaxError\<close> is caught and written to the console.
\<close>

theorem AddModel_malformed_returns_normally:
  "AddModel tree_scene (Str ''bush'') \<lparr>status = 200, responseText = NotJSON\<rparr> True
     ''./models/bush.png'' (Some ()) =
     (tree_scene, [ConsoleError (LogException SyntaxError)], None)"
  by (simp add: AddModel_def request_onload_def)

text \<open>
  Claim C5, amended. For every scene and every \<open>AddModel\<close> whose response has a
  status from 200 to 299 and a text that \<open>JSON.parse\<close> rejects, the exception is
  caught and logged with \<open>console.error\<close>, nothing is thrown, the callback is not
  called, and the scene, its model and texture maps included, is left as it was.
\<close>

theorem AddModel_malformed_logged:
  "199 < status r \<and> status r < 300 \<and> responseText r = NotJSON \<longrightarrow>
     AddModel s ident r image_loads imgURL cb =
       (s, [ConsoleError (LogException SyntaxError)], None)"
  by (simp add: AddModel_def request_onload_def)

theorem AddModel_malformed_logged_witness:
  "199 < status \<lparr>status = 200, responseText = NotJSON\<rparr>
   \<and> status \<lparr>status = 200, responseText = NotJSON\<rparr> < 300
   \<and> responseText \<lparr>status = 200, responseText = NotJSON\<rparr> = NotJSON
   \<and> models (fst (AddModel tree_scene (Str ''bush'')
        \<lparr>status = 200, responseText = NotJSON\<rparr> True ''./models/bush.png'' (Some ()))) =
       models tree_scene
   \<and> fst (snd (AddModel tree_scene (Str ''bush'')
        \<lparr>status = 200, responseText = NotJSON\<rparr> True ''./models/bush.png'' (Some ()))) =
       [ConsoleError (LogException SyntaxError)]"
  using AddModel_malformed_logged [of "\<lparr>status = 200, responseText = NotJSON\<rparr>"
      tree_scene "Str ''bush''" True "''./models/bush.png''" "Some ()"]
  by simp

section \<open>A shader build that fails\<close>

lemma Load_failed:
  assumes "build_fails (gl s)"
  shows "\<exists>msg. Load s cb =
     (s\<lparr>models := Val [], textures := Val []\<rparr>, [ConsoleError (LogText msg)], None)"
  using assms
  by (auto simp: Load_def build_fails_def Let_def split: option.splits)

lemma Render_no_models: "models s = Val [] \<Longrightarrow> filter is_draw (fst (Render s)) = []"
  by (cases "program s"; cases "projMatrix s"; cases "viewMatrix s")
     (simp_all add: Render_def frame_uniforms_def draws_of_frame_setup
        draws_of_light_uniforms)

text \<open>
  A failed build is not surfaced to the caller: with a vertex shader that does not
  compile, \<open>Load\<close> returns as it does on success, throwing nothing and calling no
  callback, and \<open>new Material\<close> hands back an object without a program. The info log
  goes to the console only.
\<close>

theorem failed_build_only_logged:
  "Load (Scene_new failing_gl) (Some ()) =
     ((Scene_new failing_gl)\<lparr>models := Val [], textures := Val []\<rparr>,
      [ConsoleError (LogText ''Error compiling vertex shader: ERROR: 0:1: syntax error'')],
      None)
   \<and> Material_new failing_gl =
       (\<lparr>m_gl = failing_gl, m_program = Undefined\<rparr>,
        [ConsoleError (LogText (''Shader Error: '' @ [CHR 0x0A] @ ''ERROR: 0:1: syntax error''))])"
  by (simp add: Load_def Material_new_def getShader_def Scene_new_def failing_gl_def
      example_gl_def)

text \<open>
  Claim C6, amended. A shader build that fails is reported on \<open>console.error\<close>, with
  the driver's info log, at the stage that fails, and nothing is thrown or handed to the
  caller. \<open>Load\<close> writes the message of the first stage that fails (vertex compilation,
  fragment compilation, linking, validation), made of the stage's prefix and its info log,
  and returns: the scene is the one before the call with empty model and texture maps, so
  the program is not set, the callback is not invoked, and a \<open>Render\<close> of that scene
  issues no draw call. The \<open>Material\<close> constructor compiles both shaders and writes
  \<open>Shader Error:\<close> and the info log for each one that fails, and then creates no program;
  when both compile and the link fails it writes \<open>Cannot load shader:\<close> and the info
  log of the link.
\<close>

theorem failed_build_logged_and_returns:
  "(vertex_log (gl s) = Some vi \<longrightarrow>
      Load s cb =
        (s\<lparr>models := Val [], textures := Val []\<rparr>,
         [ConsoleError (LogText (''Error compiling vertex shader: '' @ vi))], None))
   \<and> (vertex_log (gl s) = None \<and> fragment_log (gl s) = Some fi \<longrightarrow>
      Load s cb =
        (s\<lparr>models := Val [], textures := Val []\<rparr>,
         [ConsoleError (LogText (''Error compiling fragment shader: '' @ fi))], None))
   \<and> (vertex_log (gl s) = None \<and> fragment_log (gl s) = None \<and> link_log (gl s) = Some li \<longrightarrow>
      Load s cb =
        (s\<lparr>models := Val [], textures := Val []\<rparr>,
         [ConsoleError (LogText (''Error linking program: '' @ li))], None))
   \<and> (vertex_log (gl s) = None \<and> fragment_log (gl s) = None \<and> link_log (gl s) = None
        \<and> validate_log (gl s) = Some va \<longrightarrow>
      Load s cb =
        (s\<lparr>models := Val [], textures := Val []\<rparr>,
         [ConsoleError (LogText (''Error validating program: '' @ va))], None))
   \<and> (build_fails (gl s) \<longrightarrow> filter is_draw (fst (Render (fst (Load s cb)))) = [])
   \<and> (vertex_log g = Some vi \<and> fragment_log g = None \<longrightarrow>
      Material_new g =
        (\<lparr>m_gl = g, m_program = Undefined\<rparr>,
         [ConsoleError (LogText (''Shader Error: '' @ [CHR 0x0A] @ vi))]))
   \<and> (vertex_log g = None \<and> fragment_log g = Some fi \<longrightarrow>
      Material_new g =
        (\<lparr>m_gl = g, m_program = Undefined\<rparr>,
         [ConsoleError (LogText (''Shader Error: '' @ [CHR 0x0A] @ fi))]))
   \<and> (vertex_log g = Some vi \<and> fragment_log g = Some fi \<longrightarrow>
      Material_new g =
        (\<lparr>m_gl = g, m_program = Undefined\<rparr>,
         [ConsoleError (LogText (''Shader Error: '' @ [CHR 0x0A] @ vi)),
          ConsoleError (LogText (''Shader Error: '' @ [CHR 0x0A] @ fi))]))
   \<and> (vertex_log g = None \<and> fragment_log g = None \<and> link_log g = Some li \<longrightarrow>
      snd (Material_new g) =
        [ConsoleError (LogText (''Cannot load shader: '' @ [CHR 0x0A] @ li))])"
proof (intro conjI impI)
  assume "build_fails (gl s)"
  then obtain msg where
    L: "Load s cb = (s\<lparr>models := Val [], textures := Val []\<rparr>, [ConsoleError (LogText msg)], None)"
    using Load_failed by blast
  show "filter is_draw (fst (Render (fst (Load s cb)))) = []"
    by (rule Render_no_models) (simp add: L)
qed (simp_all add: Load_def Material_new_def getShader_def Let_def)

theorem failed_build_logged_and_returns_witness:
  "Load (Scene_new failing_gl) (Some ()) =
     ((Scene_new failing_gl)\<lparr>models := Val [], textures := Val []\<rparr>,
      [ConsoleError (LogText (''Error compiling vertex shader: '' @ ''ERROR: 0:1: syntax error''))],
      None)
   \<and> Load (Scene_new fragment_failing_gl) (Some ()) =
     ((Scene_new fragment_failing_gl)\<lparr>models := Val [], textures := Val []\<rparr>,
      [ConsoleError (LogText (''Error compiling fragment shader: '' @ ''ERROR: 0:2: undeclared''))],
      None)
   \<and> Load (Scene_new link_failing_gl) (Some ()) =
     ((Scene_new link_failing_gl)\<lparr>models := Val [], textures := Val []\<rparr>,
      [ConsoleError (LogText (''Error linking program: '' @ ''varying mismatch''))], None)
   \<and> Load (Scene_new validate_failing_gl) (Some ()) =
     ((Scene_new validate_failing_gl)\<lparr>models := Val [], textures := Val []\<rparr>,
      [ConsoleError (LogText (''Error validating program: '' @ ''no sampler bound''))], None)
   \<and> build_fails (gl (Scene_new failing_gl))
   \<and> filter is_draw (fst (Render (fst (Load (Scene_new failing_gl) (Some ()))))) = []
   \<and> Material_new failing_gl =
       (\<lparr>m_gl = failing_gl, m_program = Undefined\<rparr>,
        [ConsoleError (LogText (''Shader Error: '' @ [CHR 0x0A] @ ''ERROR: 0:1: syntax error''))])
   \<and> Material_new fragment_failing_gl =
       (\<lparr>m_gl = fragment_failing_gl, m_program = Undefined\<rparr>,
        [ConsoleError (LogText (''Shader Error: '' @ [CHR 0x0A] @ ''ERROR: 0:2: undeclared''))])
   \<and> Material_new both_failing_gl =
       (\<lparr>m_gl = both_failing_gl, m_program = Undefined\<rparr>,
        [ConsoleError (LogText (''Shader Error: '' @ [CHR 0x0A] @ ''ERROR: 0:1: syntax error'')),
         ConsoleError (LogText (''Shader Error: '' @ [CHR 0x0A] @ ''ERROR: 0:2: undeclared''))])
   \<and> snd (Material_new link_failing_gl) =
       [ConsoleError (LogText (''Cannot load shader: '' @ [CHR 0x0A] @ ''varying mismatch''))]"
proof -
  have v: "vertex_log failing_gl = Some ''ERROR: 0:1: syntax error''"
    "fragment_log failing_gl = None"
    by (simp_all add: failing_gl_def example_gl_def)
  have f: "vertex_log fragment_failing_gl = None"
    "fragment_log fragment_failing_gl = Some ''ERROR: 0:2: undeclared''"
    by (simp_all add: fragment_failing_gl_def example_gl_def)
  have b: "vertex_log both_failing_gl = Some ''ERROR: 0:1: syntax error''"
    "fragment_log both_failing_gl = Some ''ERROR: 0:2: undeclared''"
    by (simp_all add: both_failing_gl_def failing_gl_def example_gl_def)
  have l: "vertex_log link_failing_gl = None" "fragment_log link_failing_gl = None"
    "link_log link_failing_gl = Some ''varying mismatch''"
    by (simp_all add: link_failing_gl_def example_gl_def)
  have a: "vertex_log validate_failing_gl = None" "fragment_log validate_failing_gl = None"
    "link_log validate_failing_gl = None"
    "validate_log validate_failing_gl = Some ''no sampler bound''"
    by (simp_all add: validate_failing_gl_def example_gl_def)
  have g: "gl (Scene_new x) = x" for x
    by (simp add: Scene_new_def)
  have bf: "build_fails (gl (Scene_new failing_gl))"
    by (simp add: build_fails_def g v)
  have 1: "Load (Scene_new failing_gl) (Some ()) =
     ((Scene_new failing_gl)\<lparr>models := Val [], textures := Val []\<rparr>,
      [ConsoleError (LogText (''Error compiling vertex shader: '' @ ''ERROR: 0:1: syntax error''))],
      None)"
    and 5: "filter is_draw (fst (Render (fst (Load (Scene_new failing_gl) (Some ()))))) = []"
    and 6: "Material_new failing_gl =
       (\<lparr>m_gl = failing_gl, m_program = Undefined\<rparr>,
        [ConsoleError (LogText (''Shader Error: '' @ [CHR 0x0A] @ ''ERROR: 0:1: syntax error''))])"
    using failed_build_logged_and_returns [where s = "Scene_new failing_gl" and cb = "Some ()"
        and g = failing_gl and vi = "''ERROR: 0:1: syntax error''"] v bf
    unfolding g by blast+
  have 2: "Load (Scene_new fragment_failing_gl) (Some ()) =
     ((Scene_new fragment_failing_gl)\<lparr>models := Val [], textures := Val []\<rparr>,
      [ConsoleError (LogText (''Error compiling fragment shader: '' @ ''ERROR: 0:2: undeclared''))],
      None)"
    and 7: "Material_new fragment_failing_gl =
       (\<lparr>m_gl = fragment_failing_gl, m_program = Undefined\<rparr>,
        [ConsoleError (LogText (''Shader Error: '' @ [CHR 0x0A] @ ''ERROR: 0:2: undeclared''))])"
    using failed_build_logged_and_returns [where s = "Scene_new fragment_failing_gl"
        and cb = "Some ()" and g = fragment_failing_gl and fi = "''ERROR: 0:2: undeclared''"] f
    unfolding g by blast+
  have 3: "Load (Scene_new link_failing_gl) (Some ()) =
     ((Scene_new link_failing_gl)\<lparr>models := Val [], textures := Val []\<rparr>,
      [ConsoleError (LogText (''Error linking program: '' @ ''varying mismatch''))], None)"
    and 9: "snd (Material_new link_failing_gl) =
       [ConsoleError (LogText (''Cannot load shader: '' @ [CHR 0x0A] @ ''varying mismatch''))]"
    using failed_build_logged_and_returns [where s = "Scene_new link_failing_gl"
        and cb = "Some ()" and g = link_failing_gl and li = "''varying mismatch''"] l
    unfolding g by blast+
  have 4: "Load (Scene_new validate_failing_gl) (Some ()) =
     ((Scene_new validate_failing_gl)\<lparr>models := Val [], textures := Val []\<rparr>,
      [ConsoleError (LogText (''Error validating program: '' @ ''no sampler bound''))], None)"
    using failed_build_logged_and_returns [where s = "Scene_new validate_failing_gl"
        and cb = "Some ()" and va = "''no sampler bound''"] a
    unfolding g by blast
  have 8: "Material_new both_failing_gl =
       (\<lparr>m_gl = both_failing_gl, m_program = Undefined\<rparr>,
        [ConsoleError (LogText (''Shader Error: '' @ [CHR 0x0A] @ ''ERROR: 0:1: syntax error'')),
         ConsoleError (LogText (''Shader Error: '' @ [CHR 0x0A] @ ''ERROR: 0:2: undeclared''))])"
    using failed_build_logged_and_returns [where g = both_failing_gl
        and vi = "''ERROR: 0:1: syntax error''" and fi = "''ERROR: 0:2: undeclared''"] b
    by blast
  show ?thesis
    by (intro conjI) (rule 1 2 3 4 bf 5 6 7 8 9)+
qed

text \<open>
  \<open>Load\<close> is not atomic: on a new scene, whose maps are \<open>undefined\<close>, a
  \<open>Load\<close> whose vertex shader does not compile leaves both maps set to \<open>{}\<close>.
\<close>

theorem failed_Load_sets_maps:
  "models (Scene_new failing_gl) = Undefined
   \<and> textures (Scene_new failing_gl) = Undefined
   \<and> models (fst (Load (Scene_new failing_gl) (Some ()))) = Val []
   \<and> textures (fst (Load (Scene_new failing_gl) (Some ()))) = Val []"
  by (simp add: Load_def Scene_new_def failing_gl_def example_gl_def)

text \<open>
  Claim C7, amended. When the shader build fails, \<open>Load\<close> returns without throwing
  and without calling the callback, and the scene is the one before the call except that
  the model map and the texture map have been replaced by empty objects: program, camera,
  view matrix and projection matrix are untouched.
\<close>

theorem failed_Load_state:
  "build_fails (gl s) \<longrightarrow>
     fst (Load s cb) = s\<lparr>models := Val [], textures := Val []\<rparr>
   \<and> CallbackInvoked \<notin> set (fst (snd (Load s cb)))
   \<and> snd (snd (Load s cb)) = None
   \<and> program (fst (Load s cb)) = program s
   \<and> camera (fst (Load s cb)) = camera s
   \<and> viewMatrix (fst (Load s cb)) = viewMatrix s
   \<and> projMatrix (fst (Load s cb)) = projMatrix s"
proof
  assume "build_fails (gl s)"
  then obtain msg where
    L: "Load s cb = (s\<lparr>models := Val [], textures := Val []\<rparr>, [ConsoleError (LogText msg)], None)"
    using Load_failed by blast
  show "fst (Load s cb) = s\<lparr>models := Val [], textures := Val []\<rparr>
   \<and> CallbackInvoked \<notin> set (fst (snd (Load s cb)))
   \<and> snd (snd (Load s cb)) = None
   \<and> program (fst (Load s cb)) = program s
   \<and> camera (fst (Load s cb)) = camera s
   \<and> viewMatrix (fst (Load s cb)) = viewMatrix s
   \<and> projMatrix (fst (Load s cb)) = projMatrix s"
    by (simp add: L)
qed

theorem failed_Load_state_witness:
  "build_fails (gl (tree_scene\<lparr>gl := failing_gl\<rparr>))
   \<and> models (fst (Load (tree_scene\<lparr>gl := failing_gl\<rparr>) (Some ()))) = Val []
   \<and> program (fst (Load (tree_scene\<lparr>gl := failing_gl\<rparr>) (Some ()))) = program tree_scene"
proof -
  have b: "build_fails (gl (tree_scene\<lparr>gl := failing_gl\<rparr>))"
    by (simp add: build_fails_def failing_gl_def)
  note T = failed_Load_state [of "tree_scene\<lparr>gl := failing_gl\<rparr>" "Some ()"]
  have 1: "fst (Load (tree_scene\<lparr>gl := failing_gl\<rparr>) (Some ())) =
      tree_scene\<lparr>gl := failing_gl\<rparr>\<lparr>models := Val [], textures := Val []\<rparr>"
    using T b by blast
  show ?thesis using b by (simp add: 1)
qed

section \<open>Constructing a renderer\<close>

text \<open>
  Claim C10. For every context on which both shaders compile and the program links and
  validates, \<open>new renderer(gl)\<close> throws a \<open>TypeError\<close> at the assignment to
  \<open>me.uniforms.pointLights\<close>: the object has its program, but \<open>uniforms\<close> and
  \<open>attribs\<close> are still \<open>undefined\<close>, whatever the global scene holds.
\<close>

theorem renderer_throws_on_success:
  "vertex_log g = None \<and> fragment_log g = None \<and> link_log g = None \<and> validate_log g = None
   \<longrightarrow> renderer_new g scene_pointLights =
         (\<lparr>r_gl = Val g, r_program = Val (WebGLProgram True), r_uniforms = Undefined,
           r_attribs = Undefined\<rparr>, [], Some TypeError)"
  by (simp add: renderer_new_def)

theorem renderer_throws_on_success_witness:
  "vertex_log example_gl = None \<and> fragment_log example_gl = None
   \<and> link_log example_gl = None \<and> validate_log example_gl = None
   \<and> snd (snd (renderer_new example_gl (Some 2))) = Some TypeError
   \<and> r_uniforms (fst (renderer_new example_gl (Some 2))) = Undefined"
proof -
  have h: "vertex_log example_gl = None \<and> fragment_log example_gl = None
     \<and> link_log example_gl = None \<and> validate_log example_gl = None"
    by (simp add: example_gl_def)
  have "renderer_new example_gl (Some 2) =
         (\<lparr>r_gl = Val example_gl, r_program = Val (WebGLProgram True), r_uniforms = Undefined,
           r_attribs = Undefined\<rparr>, [], Some TypeError)"
    using renderer_throws_on_success [of example_gl "Some 2"] h by blast
  with h show ?thesis by simp
qed

section \<open>Point-light attenuation\<close>

lemma attenuation_differs:
  "\<exists>d. 0 \<le> d \<and> 1 - d \<noteq> point_attenuation light d"
proof (cases "pl_constant light = 1")
  case False
  then have "1 - 0 \<noteq> point_attenuation light 0"
    by (simp add: point_attenuation_def)
  then show ?thesis by (intro exI [of _ 0]) simp
next
  case c: True
  show ?thesis
  proof (cases "1 - 1 = point_attenuation light 1")
    case False
    then show ?thesis by (intro exI [of _ 1]) simp
  next
    case one: True
    then have s1: "pl_linear light + pl_quadratic light = - 1"
      using c by (simp add: point_attenuation_def) 
    show ?thesis
    proof (cases "1 - 2 = point_attenuation light 2")
      case False
      then show ?thesis by (intro exI [of _ 2]) simp
    next
      case two: True
      then have "1 / (1 + pl_linear light * 2 + pl_quadratic light * 4) = - 1"
        using c by (simp add: point_attenuation_def)
      then have "1 + pl_linear light * 2 + pl_quadratic light * 4 = - 1"
        by (metis div_by_1 divide_divide_eq_right divide_minus1 mult_1 neg_equal_zero
            zero_neq_one divide_eq_0_iff nonzero_divide_eq_eq)
      with s1 have q: "pl_quadratic light = 0" and l: "pl_linear light = - 1" by simp_all
      have "1 - 3 \<noteq> point_attenuation light 3"
        using c q l by (simp add: point_attenuation_def)
      then show ?thesis by (intro exI [of _ 3]) simp
    qed
  qed
qed

lemma attenuation_at_one:
  "pl_constant light + pl_linear light + pl_quadratic light \<noteq> 0
     \<Longrightarrow> point_attenuation light 1 \<noteq> 1 - 1"
  by (simp add: point_attenuation_def)

text \<open>
  Claim C9. In the main fragment shader of the gbuffer example the factor applied to the
  shaded colour is one minus the distance between light and fragment. \<open>CalcPointLight\<close>
  scales its result by \<open>1 / (constant + linear * d + quadratic * d * d)\<close> instead. For
  no choice of the three coefficients are the two the same function of the distance: they
  differ at some \<open>d\<close>, and at distance one the first is zero while the second is not,
  wherever its denominator is not zero.
\<close>

theorem gbuffer_attenuation_is_linear:
  "main_attenuation i = 1 - vec3_length (vec3_subtract (uLight_position i) (in_position i))
   \<and> fst (mainFragment i) =
       glsl_mul (vec3_scale (main_lighting i)
                   (1 - vec3_length (vec3_subtract (uLight_position i) (in_position i))))
         (baseColor_rgb i)
   \<and> CalcPointLight shine td ts light normal fragPos viewDir =
       vec3_scale (CalcPointLight shine td ts
                     (light\<lparr>pl_constant := 1, pl_linear := 0, pl_quadratic := 0\<rparr>)
                     normal fragPos viewDir)
         (point_attenuation light (vec3_length (vec3_subtract (pl_position light) fragPos)))
   \<and> (\<exists>d. 0 \<le> d \<and> 1 - d \<noteq> point_attenuation light d)
   \<and> (pl_constant light + pl_linear light + pl_quadratic light \<noteq> 0
        \<longrightarrow> point_attenuation light 1 \<noteq> 1 - 1)"
proof (intro conjI impI)
  show "main_attenuation i = 1 - vec3_length (vec3_subtract (uLight_position i) (in_position i))"
    by (simp add: main_attenuation_def)
  show "fst (mainFragment i) =
       glsl_mul (vec3_scale (main_lighting i)
                   (1 - vec3_length (vec3_subtract (uLight_position i) (in_position i))))
         (baseColor_rgb i)"
    by (simp add: mainFragment_def main_attenuation_def)
  show "CalcPointLight shine td ts light normal fragPos viewDir =
       vec3_scale (CalcPointLight shine td ts
                     (light\<lparr>pl_constant := 1, pl_linear := 0, pl_quadratic := 0\<rparr>)
                     normal fragPos viewDir)
         (point_attenuation light (vec3_length (vec3_subtract (pl_position light) fragPos)))"
    by (simp add: CalcPointLight_def point_attenuation_def Let_def vec3_scale_def vec3_add_def
        algebra_simps)
  show "\<exists>d. 0 \<le> d \<and> 1 - d \<noteq> point_attenuation light d"
    by (rule attenuation_differs)
next
  assume "pl_constant light + pl_linear light + pl_quadratic light \<noteq> 0"
  then show "point_attenuation light 1 \<noteq> 1 - 1"
    by (rule attenuation_at_one)
qed

theorem gbuffer_attenuation_is_linear_witness:
  "pl_constant good_light + pl_linear good_light + pl_quadratic good_light \<noteq> 0
   \<and> point_attenuation good_light 1 \<noteq> 1 - 1
   \<and> point_attenuation good_light 1 = 400 / 421"
proof -
  have h: "pl_constant good_light + pl_linear good_light + pl_quadratic good_light \<noteq> 0"
    by (simp add: good_light_def)
  have "point_attenuation good_light 1 \<noteq> 1 - 1"
    using gbuffer_attenuation_is_linear [where light = good_light] h by blast
  moreover have "point_attenuation good_light 1 = 400 / 421"
    by (simp add: point_attenuation_def good_light_def)
  ultimately show ?thesis using h by blast
qed

end

